theory Spec2Isabelle
  imports Complex_Main "HOL-Library.Sublist"
begin

section \<open>The program\<close>

text \<open>
  Diff-Sheriff is a worker that answers \<^verbatim>\<open>POST /review\<close>: it checks the request,
  sends the diff to an inference binding, extracts a JSON object from the reply,
  validates it, and answers with the findings. Its source, one TypeScript file, was read
  in three variants:
  \<^item> the variant of \<^verbatim>\<open>src/index.ts\<close>, which extracts and validates;
  \<^item> a variant that also derives a recommendation, renders a report and builds inline
    comments (called the variant with inline comments below);
  \<^item> a variant that also detects trivial diffs, filters noise and retries the inference
    once (called the variant with the retry below); it is the one stored after the
    README.

  \<^verbatim>\<open>extractJson\<close>, \<^verbatim>\<open>validateFinding\<close>, \<^verbatim>\<open>buildUserPrompt\<close>,
  \<^verbatim>\<open>deriveRecommendation\<close> and the checks of \<^verbatim>\<open>handleReview\<close> up to the truncation of
  the diff are the same text in every variant that has them. The handlers embedded below
  are those of the variant with the retry and of \<^verbatim>\<open>src/index.ts\<close>; the renderer and
  the bullets are embedded for both variants that have them, and the inline comments for
  the one that has them.
\<close>

section \<open>Strings\<close>

text \<open>
  A JavaScript string is a sequence of UTF-16 code units, and \<^verbatim>\<open>length\<close>,
  \<^verbatim>\<open>indexOf\<close>, \<^verbatim>\<open>slice\<close> and \<^verbatim>\<open>startsWith\<close> count and compare code units.
  A string is therefore a list of code units, each a natural number; \<open>lit\<close> turns
  an ASCII literal of the source into its code units. No function below depends on a
  code unit being below \<open>2 ^ 16\<close>.
\<close>

type_synonym jschar = nat
type_synonym jsstring = "jschar list"

definition lit :: "string \<Rightarrow> jsstring" where
  "lit s = map of_char s"

definition lbrace :: jschar where
  "lbrace = 123"

definition rbrace :: jschar where
  "rbrace = 125"

text \<open>\<^verbatim>\<open>s.startsWith(p)\<close>.\<close>

definition startsWith :: "jsstring \<Rightarrow> jsstring \<Rightarrow> bool" where
  "startsWith s p = prefix p s"

text \<open>
  \<^verbatim>\<open>s.indexOf(p)\<close>: the least position at which \<open>p\<close> occurs, \<open>-1\<close> when there
  is none. The second argument of the loop is the position of the suffix at hand.
\<close>

fun indexOf_from :: "jsstring \<Rightarrow> jsstring \<Rightarrow> nat \<Rightarrow> int" where
  "indexOf_from [] p i = (if p = [] then int i else - 1)"
| "indexOf_from (c # cs) p i =
     (if prefix p (c # cs) then int i else indexOf_from cs p (Suc i))"

definition indexOf :: "jsstring \<Rightarrow> jsstring \<Rightarrow> int" where
  "indexOf s p = indexOf_from s p 0"

text \<open>
  \<^verbatim>\<open>s.lastIndexOf(p)\<close>: the greatest position at which \<open>p\<close> occurs, \<open>-1\<close> when
  there is none. The loop walks the string once and keeps the last match seen.
\<close>

fun lastIndexOf_from :: "jsstring \<Rightarrow> jsstring \<Rightarrow> nat \<Rightarrow> int \<Rightarrow> int" where
  "lastIndexOf_from [] p i found = (if p = [] then int i else found)"
| "lastIndexOf_from (c # cs) p i found =
     lastIndexOf_from cs p (Suc i) (if prefix p (c # cs) then int i else found)"

definition lastIndexOf :: "jsstring \<Rightarrow> jsstring \<Rightarrow> int" where
  "lastIndexOf s p = lastIndexOf_from s p 0 (- 1)"

text \<open>
  \<^verbatim>\<open>s.slice(start, end)\<close>: a negative index counts from the end, both indices are
  clamped to the string, and the result is empty when the end does not exceed the start.
\<close>

definition slice_index :: "nat \<Rightarrow> int \<Rightarrow> nat" where
  "slice_index len i = (if i < 0 then nat (max (int len + i) 0) else min (nat i) len)"

definition slice :: "jsstring \<Rightarrow> int \<Rightarrow> int \<Rightarrow> jsstring" where
  "slice s start end =
     (let from = slice_index (length s) start; to = slice_index (length s) end
      in take (to - from) (drop from s))"

text \<open>\<^verbatim>\<open>s.slice(start)\<close>, to the end of the string.\<close>

definition slice_from :: "jsstring \<Rightarrow> int \<Rightarrow> jsstring" where
  "slice_from s start = drop (slice_index (length s) start) s"

text \<open>
  White space as \<^verbatim>\<open>trim()\<close> and the regular expression class \<^verbatim>\<open>\s\<close> see it:
  the WhiteSpace and LineTerminator code points of ECMAScript.
\<close>

definition isWhiteSpace :: "jschar \<Rightarrow> bool" where
  "isWhiteSpace c =
     (c = 9 \<or> c = 10 \<or> c = 11 \<or> c = 12 \<or> c = 13 \<or> c = 32 \<or> c = 160 \<or> c = 5760
      \<or> (8192 \<le> c \<and> c \<le> 8202) \<or> c = 8232 \<or> c = 8233 \<or> c = 8239 \<or> c = 8287
      \<or> c = 12288 \<or> c = 65279)"

definition trim :: "jsstring \<Rightarrow> jsstring" where
  "trim s = rev (dropWhile isWhiteSpace (rev (dropWhile isWhiteSpace s)))"

text \<open>\<^verbatim>\<open>parts.join(sep)\<close>.\<close>

fun join :: "jsstring \<Rightarrow> jsstring list \<Rightarrow> jsstring" where
  "join sep [] = []"
| "join sep [x] = x"
| "join sep (x # y # ys) = x @ sep @ join sep (y # ys)"

text \<open>
  \<^verbatim>\<open>s.split("\n")\<close>: the pieces between line feeds; the empty string gives one
  empty piece.
\<close>

fun split_lines :: "jsstring \<Rightarrow> jsstring list" where
  "split_lines [] = [[]]"
| "split_lines (c # cs) =
     (if c = 10 then [] # split_lines cs
      else (case split_lines cs of [] \<Rightarrow> [[c]] | l # ls \<Rightarrow> (c # l) # ls))"

section \<open>Values\<close>

text \<open>
  A JavaScript number is a double: a finite value is a rational number, and there are
  two infinities and NaN. The model keeps every rational, so it has each finite double
  among its values; negative zero is not told apart from zero (both are integers, and
  both are falsy).
\<close>

datatype number = Finite rat | PosInfinity | NegInfinity | NaN

text \<open>\<^verbatim>\<open>Number.isInteger(n)\<close>.\<close>

fun Number_isInteger :: "number \<Rightarrow> bool" where
  "Number_isInteger (Finite q) = (of_int \<lfloor>q\<rfloor> = q)"
| "Number_isInteger PosInfinity = False"
| "Number_isInteger NegInfinity = False"
| "Number_isInteger NaN = False"

text \<open>The truth value of a number in a condition: zero and NaN are falsy.\<close>

fun truthy_number :: "number \<Rightarrow> bool" where
  "truthy_number (Finite q) = (q \<noteq> 0)"
| "truthy_number PosInfinity = True"
| "truthy_number NegInfinity = True"
| "truthy_number NaN = False"

text \<open>
  The values \<^verbatim>\<open>JSON.parse\<close> returns, and the inference binding's replies. An object
  is its list of properties, looked up by key (of two entries with one key the first is the
  property); a missing property is \<^verbatim>\<open>undefined\<close>, which is \<open>None\<close> below.
\<close>

datatype json =
    JNull
  | JBool bool
  | JNum number
  | JStr jsstring
  | JArr "json list"
  | JObj "(jsstring \<times> json) list"

datatype jstype = TUndefined | TObject | TBoolean | TNumber | TString

text \<open>\<^verbatim>\<open>typeof v\<close>: null and arrays are objects.\<close>

fun typeof :: "json option \<Rightarrow> jstype" where
  "typeof None = TUndefined"
| "typeof (Some JNull) = TObject"
| "typeof (Some (JBool b)) = TBoolean"
| "typeof (Some (JNum n)) = TNumber"
| "typeof (Some (JStr s)) = TString"
| "typeof (Some (JArr xs)) = TObject"
| "typeof (Some (JObj kvs)) = TObject"

text \<open>
  \<^verbatim>\<open>obj.key\<close> for the keys the program reads (\<^verbatim>\<open>summary\<close>, \<^verbatim>\<open>findings\<close>,
  \<^verbatim>\<open>severity\<close> and so on): an object has the property when it is among its own;
  an array has none of them.
\<close>

fun get_prop :: "json \<Rightarrow> jsstring \<Rightarrow> json option" where
  "get_prop (JObj kvs) k = map_of kvs k"
| "get_prop v k = None"

text \<open>The string a value is, once \<^verbatim>\<open>typeof\<close> has said it is one.\<close>

fun the_string :: "json option \<Rightarrow> jsstring" where
  "the_string (Some (JStr s)) = s"
| "the_string v = []"

text \<open>The number a value is, once \<^verbatim>\<open>typeof\<close> has said it is one.\<close>

fun the_number :: "json option \<Rightarrow> number" where
  "the_number (Some (JNum n)) = n"
| "the_number v = NaN"

text \<open>\<^verbatim>\<open>Array.isArray(v)\<close>, and the elements of the array.\<close>

fun isArray :: "json option \<Rightarrow> bool" where
  "isArray (Some (JArr xs)) = True"
| "isArray v = False"

fun elements :: "json option \<Rightarrow> json list" where
  "elements (Some (JArr xs)) = xs"
| "elements v = []"

section \<open>Errors\<close>

text \<open>
  What the functions throw. \<open>NoJsonFound\<close> is the \<^verbatim>\<open>Error\<close> of \<^verbatim>\<open>extractJson\<close>;
  \<open>MalformedJson\<close> is the \<^verbatim>\<open>SyntaxError\<close> of \<^verbatim>\<open>JSON.parse\<close>, with the engine's
  message; \<open>NotAnObject\<close> and \<open>MissingSummary\<close> are the two errors of
  \<^verbatim>\<open>validateAiResponse\<close>; \<open>UnexpectedFormat\<close> is the error of
  \<^verbatim>\<open>getAiResponseText\<close>; \<open>Thrown\<close> is whatever the inference binding throws, with its
  message when it is an \<^verbatim>\<open>Error\<close>.
\<close>

datatype error =
    NoJsonFound
  | MalformedJson jsstring
  | NotAnObject
  | MissingSummary
  | UnexpectedFormat
  | Thrown "jsstring option"

text \<open>\<^verbatim>\<open>err instanceof Error ? err.message : fallback\<close>.\<close>

fun error_message :: "error \<Rightarrow> jsstring \<Rightarrow> jsstring" where
  "error_message NoJsonFound fallback = lit ''No JSON object found in response''"
| "error_message (MalformedJson m) fallback = m"
| "error_message NotAnObject fallback = lit ''AI response is not an object''"
| "error_message MissingSummary fallback = lit ''AI response missing summary''"
| "error_message UnexpectedFormat fallback = lit ''Unexpected AI response format''"
| "error_message (Thrown (Some m)) fallback = m"
| "error_message (Thrown None) fallback = fallback"

section \<open>The response extractor\<close>

text \<open>
  \<^verbatim>\<open>extractJson\<close>. \<^verbatim>\<open>JSON.parse\<close> is the engine's: it is the parameter \<open>parse\<close>,
  which returns the parsed value or the message of the \<^verbatim>\<open>SyntaxError\<close> it throws.
\<close>

definition extractJson :: "(jsstring \<Rightarrow> jsstring + 'a) \<Rightarrow> jsstring \<Rightarrow> error + 'a" where
  "extractJson parse text =
     (let firstBrace = indexOf text [lbrace];
          lastBrace = lastIndexOf text [rbrace]
      in if firstBrace = - 1 \<or> lastBrace = - 1 \<or> lastBrace < firstBrace
         then Inl NoJsonFound
         else (let jsonStr = slice text firstBrace (lastBrace + 1)
               in case parse jsonStr of
                    Inl m \<Rightarrow> Inl (MalformedJson m)
                  | Inr v \<Rightarrow> Inr v))"

section \<open>Findings\<close>

datatype Severity = High | Medium | Low | Nit

text \<open>
  The severity a string names; \<^verbatim>\<open>validSeverities.includes(s)\<close> holds when there is
  one.
\<close>

definition severity_of :: "jsstring \<Rightarrow> Severity option" where
  "severity_of s =
     (if s = lit ''high'' then Some High
      else if s = lit ''medium'' then Some Medium
      else if s = lit ''low'' then Some Low
      else if s = lit ''nit'' then Some Nit
      else None)"

record Finding =
  severity :: Severity
  title :: jsstring
  rationale :: jsstring
  suggestion :: "jsstring option"
  "file" :: "jsstring option"
  line :: "number option"

text \<open>The truth value of an optional string or number: absent, empty and zero are falsy.\<close>

fun truthy_string :: "jsstring option \<Rightarrow> bool" where
  "truthy_string None = False"
| "truthy_string (Some s) = (s \<noteq> [])"

fun truthy_line :: "number option \<Rightarrow> bool" where
  "truthy_line None = False"
| "truthy_line (Some n) = truthy_number n"

section \<open>The result validator\<close>

text \<open>\<^verbatim>\<open>validateFinding\<close>; \<open>None\<close> is its \<^verbatim>\<open>null\<close>.\<close>

definition validateFinding :: "json \<Rightarrow> Finding option" where
  "validateFinding f =
     (if typeof (Some f) \<noteq> TObject \<or> f = JNull then None
      else if typeof (get_prop f (lit ''severity'')) \<noteq> TString
              \<or> severity_of (the_string (get_prop f (lit ''severity''))) = None
      then None
      else if typeof (get_prop f (lit ''title'')) \<noteq> TString
              \<or> the_string (get_prop f (lit ''title'')) = []
      then None
      else if typeof (get_prop f (lit ''rationale'')) \<noteq> TString
              \<or> the_string (get_prop f (lit ''rationale'')) = []
      then None
      else Some
        \<lparr> severity = the (severity_of (the_string (get_prop f (lit ''severity'')))),
          title = the_string (get_prop f (lit ''title'')),
          rationale = the_string (get_prop f (lit ''rationale'')),
          suggestion =
            (if typeof (get_prop f (lit ''suggestion'')) = TString
                \<and> the_string (get_prop f (lit ''suggestion'')) \<noteq> []
             then Some (the_string (get_prop f (lit ''suggestion''))) else None),
          file =
            (if typeof (get_prop f (lit ''file'')) = TString
                \<and> the_string (get_prop f (lit ''file'')) \<noteq> []
             then Some (the_string (get_prop f (lit ''file''))) else None),
          line =
            (if typeof (get_prop f (lit ''line'')) = TNumber
                \<and> Number_isInteger (the_number (get_prop f (lit ''line'')))
             then Some (the_number (get_prop f (lit ''line''))) else None) \<rparr>)"

text \<open>
  The loop over \<^verbatim>\<open>obj.findings\<close>: each element is validated and pushed when it is
  valid. The second argument is the array built so far.
\<close>

fun collectFindings :: "json list \<Rightarrow> Finding list \<Rightarrow> Finding list" where
  "collectFindings [] findings = findings"
| "collectFindings (f # fs) findings =
     (case validateFinding f of
        None \<Rightarrow> collectFindings fs findings
      | Some validated \<Rightarrow> collectFindings fs (findings @ [validated]))"

text \<open>The loop over \<^verbatim>\<open>obj.testingNotes\<close>.\<close>

fun collectNotes :: "json list \<Rightarrow> jsstring list \<Rightarrow> jsstring list" where
  "collectNotes [] testingNotes = testingNotes"
| "collectNotes (note # notes) testingNotes =
     (if typeof (Some note) = TString \<and> trim (the_string (Some note)) \<noteq> []
      then collectNotes notes (testingNotes @ [trim (the_string (Some note))])
      else collectNotes notes testingNotes)"

record Validated =
  v_summary :: jsstring
  v_findings :: "Finding list"
  v_testingNotes :: "jsstring list"

text \<open>
  \<^verbatim>\<open>validateAiResponse\<close>. The variant of \<^verbatim>\<open>src/index.ts\<close> is the same without
  the testing notes.
\<close>

definition validateAiResponse :: "json \<Rightarrow> error + Validated" where
  "validateAiResponse parsed =
     (if typeof (Some parsed) \<noteq> TObject \<or> parsed = JNull then Inl NotAnObject
      else if typeof (get_prop parsed (lit ''summary'')) \<noteq> TString then Inl MissingSummary
      else Inr
        \<lparr> v_summary = the_string (get_prop parsed (lit ''summary'')),
          v_findings =
            (if isArray (get_prop parsed (lit ''findings''))
             then collectFindings (elements (get_prop parsed (lit ''findings''))) []
             else []),
          v_testingNotes =
            (if isArray (get_prop parsed (lit ''testingNotes''))
             then collectNotes (elements (get_prop parsed (lit ''testingNotes''))) []
             else []) \<rparr>)"

text \<open>
  The words of the specification for a finding: an element of the findings array is well
  formed when its severity is a string that is one of the four names and its title and
  its rationale are strings that are not empty. Nothing is asked of its suggestion, its
  file or its line.
\<close>

definition severity_name :: "Severity \<Rightarrow> jsstring" where
  "severity_name s =
     (case s of High \<Rightarrow> lit ''high'' | Medium \<Rightarrow> lit ''medium'' | Low \<Rightarrow> lit ''low''
      | Nit \<Rightarrow> lit ''nit'')"

fun severity_string :: "json option \<Rightarrow> bool" where
  "severity_string (Some (JStr s)) =
     (s \<in> {lit ''high'', lit ''medium'', lit ''low'', lit ''nit''})"
| "severity_string _ = False"

fun nonempty_string :: "json option \<Rightarrow> bool" where
  "nonempty_string (Some (JStr s)) = (s \<noteq> [])"
| "nonempty_string _ = False"

definition well_formed_finding :: "json \<Rightarrow> bool" where
  "well_formed_finding f =
     (severity_string (get_prop f (lit ''severity''))
      \<and> nonempty_string (get_prop f (lit ''title''))
      \<and> nonempty_string (get_prop f (lit ''rationale'')))"

text \<open>An optional string of an element: kept when it is a string that is not empty.\<close>

definition optional_string :: "json option \<Rightarrow> jsstring option" where
  "optional_string v = (case v of Some (JStr x) \<Rightarrow> (if x = [] then None else Some x) | _ \<Rightarrow> None)"

section \<open>The recommendation\<close>

datatype Recommendation = Approve | ApproveWithChanges | RequestChanges

text \<open>\<^verbatim>\<open>deriveRecommendation\<close>; \<^verbatim>\<open>findings.some(p)\<close> is \<open>list_ex p findings\<close>.\<close>

definition deriveRecommendation :: "Finding list \<Rightarrow> Recommendation" where
  "deriveRecommendation findings =
     (let hasHigh = list_ex (\<lambda>f. severity f = High) findings;
          hasMedium = list_ex (\<lambda>f. severity f = Medium) findings
      in if hasHigh then RequestChanges
         else if hasMedium then ApproveWithChanges
         else Approve)"

section \<open>The report renderer\<close>

text \<open>
  Symbols outside ASCII in the source's string literals, as UTF-16 code units:
  U+2705 (check mark), U+26A0 U+FE0F (warning sign), U+274C (cross mark), U+1F6A8
  (rotating light), U+1F4A1 (light bulb), U+1F9EA (test tube), U+1F50E (magnifying
  glass), U+1F9ED (compass), U+2192 (arrow), U+2014 (dash) and U+2022 (bullet). The copy
  of the third variant of the program, the one stored after the README, holds them as
  their UTF-8 bytes read in a one-byte encoding; the symbols meant are taken here.
\<close>

definition sym_check :: jsstring where
  "sym_check = [9989]"

definition sym_warning :: jsstring where
  "sym_warning = [9888, 65039]"

definition sym_cross :: jsstring where
  "sym_cross = [10060]"

definition sym_light :: jsstring where
  "sym_light = [55357, 57000]"

definition sym_bulb :: jsstring where
  "sym_bulb = [55357, 56481]"

definition sym_tube :: jsstring where
  "sym_tube = [55358, 56810]"

definition sym_glass :: jsstring where
  "sym_glass = [55357, 56590]"

definition sym_compass :: jsstring where
  "sym_compass = [55358, 56813]"

definition sym_arrow :: jsstring where
  "sym_arrow = [8594]"

definition sym_dash :: jsstring where
  "sym_dash = [8212]"

definition sym_bullet :: jsstring where
  "sym_bullet = [8226]"

definition backtick :: jsstring where
  "backtick = [96]"

text \<open>
  The three buckets of both renderers: \<^verbatim>\<open>findings.filter(...)\<close> by severity.
\<close>

definition bucket_high :: "Finding list \<Rightarrow> Finding list" where
  "bucket_high findings = filter (\<lambda>f. severity f = High) findings"

definition bucket_medium :: "Finding list \<Rightarrow> Finding list" where
  "bucket_medium findings = filter (\<lambda>f. severity f = Medium) findings"

definition bucket_lowAndNit :: "Finding list \<Rightarrow> Finding list" where
  "bucket_lowAndNit findings = filter (\<lambda>f. severity f = Low \<or> severity f = Nit) findings"

text \<open>
  The lines a bucket adds to the report: nothing when it is empty, else its header, one
  bullet for each of its findings, and an empty line.
\<close>

definition bucket_lines :: "jsstring \<Rightarrow> jsstring list \<Rightarrow> jsstring list" where
  "bucket_lines header bullets =
     (if length bullets > 0 then header # bullets @ [[]] else [])"

subsection \<open>The variant with inline comments\<close>

text \<open>
  The functions of the variant of the program that builds inline comments (the second
  of the three variants read). The number in a template literal is printed by the
  engine: \<open>print\<close> is its \<^verbatim>\<open>Number::toString\<close>.
\<close>

definition recEmoji :: "Recommendation \<Rightarrow> jsstring" where
  "recEmoji recommendation =
     (if recommendation = Approve then sym_check
      else if recommendation = ApproveWithChanges then sym_warning
      else sym_cross)"

definition formatFindingBullet_inline :: "(number \<Rightarrow> jsstring) \<Rightarrow> Finding \<Rightarrow> jsstring" where
  "formatFindingBullet_inline print f =
     (let loc =
            (if truthy_string (file f)
             then (if truthy_line (line f)
                   then backtick @ the (file f) @ lit '':'' @ print (the (line f)) @ backtick
                   else backtick @ the (file f) @ backtick)
             else []);
          bullet = lit ''- **'' @ title f @ lit ''**'';
          bullet = (if loc \<noteq> [] then bullet @ lit '' '' @ loc else bullet);
          bullet = bullet @ lit '': '' @ rationale f;
          bullet = (if truthy_string (suggestion f)
                    then bullet @ lit '' '' @ sym_arrow @ lit '' '' @ the (suggestion f)
                    else bullet)
      in bullet)"

definition header_high_inline :: jsstring where
  "header_high_inline = lit ''**'' @ sym_light @ lit '' Blocking**''"

definition header_medium_inline :: jsstring where
  "header_medium_inline = lit ''**'' @ sym_warning @ lit '' Should Fix**''"

definition header_low_inline :: jsstring where
  "header_low_inline = lit ''**'' @ sym_bulb @ lit '' Optional**''"

definition header_test_inline :: jsstring where
  "header_test_inline = lit ''**'' @ sym_tube @ lit '' Test**''"

text \<open>The array \<^verbatim>\<open>lines\<close> of \<^verbatim>\<open>renderReviewMarkdown\<close> when it is joined.\<close>

definition renderReviewLines_inline ::
  "(number \<Rightarrow> jsstring) \<Rightarrow> jsstring \<Rightarrow> Finding list \<Rightarrow> jsstring list \<Rightarrow> Recommendation
   \<Rightarrow> jsstring option \<Rightarrow> jsstring list" where
  "renderReviewLines_inline print summary findings testingNotes recommendation sha =
     [lit ''<!-- diff-sheriff -->'',
      lit ''## '' @ recEmoji recommendation @ lit '' Diff-Sheriff'',
      [],
      summary,
      []]
     @ bucket_lines header_high_inline
         (map (formatFindingBullet_inline print) (bucket_high findings))
     @ bucket_lines header_medium_inline
         (map (formatFindingBullet_inline print) (bucket_medium findings))
     @ bucket_lines header_low_inline
         (map (formatFindingBullet_inline print) (bucket_lowAndNit findings))
     @ bucket_lines header_test_inline (map (\<lambda>note. lit ''- '' @ note) testingNotes)
     @ [lit ''<sub>''
        @ (if truthy_string sha then slice (the sha) 0 7 else [])
        @ lit ''</sub>'']"

definition renderReviewMarkdown_inline ::
  "(number \<Rightarrow> jsstring) \<Rightarrow> jsstring \<Rightarrow> Finding list \<Rightarrow> jsstring list \<Rightarrow> Recommendation
   \<Rightarrow> jsstring option \<Rightarrow> jsstring" where
  "renderReviewMarkdown_inline print summary findings testingNotes recommendation sha =
     join [10] (renderReviewLines_inline print summary findings testingNotes recommendation sha)"

record InlineComment =
  c_path :: jsstring
  c_line :: number
  c_body :: jsstring

definition severityEmoji :: "Severity \<Rightarrow> jsstring" where
  "severityEmoji s =
     (if s = High then sym_light else if s = Medium then sym_warning else sym_bulb)"

definition commentBody :: "Finding \<Rightarrow> jsstring" where
  "commentBody f =
     (let body = severityEmoji (severity f) @ lit '' **'' @ title f @ lit ''**'' @ [10, 10]
                 @ rationale f
      in if truthy_string (suggestion f)
         then body @ [10, 10] @ lit ''**Suggestion:**'' @ [10] @ backtick @ backtick @ backtick
              @ lit ''suggestion'' @ [10] @ the (suggestion f) @ [10]
              @ backtick @ backtick @ backtick
         else body)"

text \<open>
  \<^verbatim>\<open>buildInlineComments\<close>: the loop skips a finding whose file or line is falsy. The
  second argument is the array built so far.
\<close>

fun buildInlineComments_loop :: "Finding list \<Rightarrow> InlineComment list \<Rightarrow> InlineComment list" where
  "buildInlineComments_loop [] comments = comments"
| "buildInlineComments_loop (f # fs) comments =
     (if \<not> truthy_string (file f) \<or> \<not> truthy_line (line f)
      then buildInlineComments_loop fs comments
      else buildInlineComments_loop fs
             (comments @ [\<lparr> c_path = the (file f), c_line = the (line f), c_body = commentBody f \<rparr>]))"

definition buildInlineComments :: "Finding list \<Rightarrow> InlineComment list" where
  "buildInlineComments findings = buildInlineComments_loop findings []"

subsection \<open>The variant with the retry\<close>

text \<open>
  The functions of the variant of the program that detects trivial diffs, filters
  noise and retries (the third of the three variants read).
\<close>

definition formatFindingBullet :: "(number \<Rightarrow> jsstring) \<Rightarrow> Finding \<Rightarrow> jsstring" where
  "formatFindingBullet print f =
     (let bullet = lit ''- **'' @ title f @ lit ''**'';
          bullet =
            (if truthy_string (file f)
             then (let bullet = bullet @ lit '' ('' @ backtick @ the (file f) @ backtick;
                       bullet = (if truthy_line (line f)
                                 then bullet @ lit '':'' @ print (the (line f))
                                 else bullet)
                   in bullet @ lit '')'')
             else bullet);
          bullet = bullet @ lit '' '' @ sym_dash @ lit '' '' @ rationale f;
          bullet = (if truthy_string (suggestion f)
                    then bullet @ lit '' *Suggestion:* '' @ the (suggestion f)
                    else bullet)
      in bullet)"

definition header_high :: jsstring where
  "header_high = lit ''### '' @ sym_light @ lit '' Must Fix (Blocking)''"

definition header_medium :: jsstring where
  "header_medium = lit ''### '' @ sym_warning @ lit '' Should Fix (Recommended)''"

definition header_low :: jsstring where
  "header_low = lit ''### '' @ sym_bulb @ lit '' Nice to Have (Optional)''"

definition header_test :: jsstring where
  "header_test = lit ''### '' @ sym_tube @ lit '' Testing Notes''"

definition recText :: "Recommendation \<Rightarrow> jsstring" where
  "recText recommendation =
     (if recommendation = Approve
      then lit ''**Approve** '' @ sym_dash @ lit '' No blocking issues found.''
      else if recommendation = ApproveWithChanges
      then lit ''**Approve with changes** '' @ sym_dash
           @ lit '' Address the recommended items before or shortly after merge.''
      else lit ''**Request changes** '' @ sym_dash
           @ lit '' Blocking issues must be resolved before merge.'')"

definition renderReviewLines ::
  "(number \<Rightarrow> jsstring) \<Rightarrow> jsstring \<Rightarrow> Finding list \<Rightarrow> jsstring list \<Rightarrow> Recommendation
   \<Rightarrow> jsstring option \<Rightarrow> jsstring list" where
  "renderReviewLines print summary findings testingNotes recommendation sha =
     [lit ''<!-- diff-sheriff -->'',
      lit ''## '' @ sym_check @ lit '' Diff-Sheriff Review'',
      [],
      lit ''### '' @ sym_glass @ lit '' Summary'',
      lit ''> '' @ summary,
      []]
     @ bucket_lines header_high (map (formatFindingBullet print) (bucket_high findings))
     @ bucket_lines header_medium (map (formatFindingBullet print) (bucket_medium findings))
     @ bucket_lines header_low (map (formatFindingBullet print) (bucket_lowAndNit findings))
     @ bucket_lines header_test (map (\<lambda>note. lit ''- '' @ note) testingNotes)
     @ [lit ''### '' @ sym_compass @ lit '' Overall Recommendation'',
        lit ''- '' @ recText recommendation,
        [],
        lit ''<sub>Reviewed by Diff-Sheriff '' @ sym_bullet
        @ lit '' AI-assisted, human-aligned '' @ sym_bullet @ lit '' Commit: ''
        @ (if truthy_string sha then backtick @ slice (the sha) 0 7 @ backtick else lit ''N/A'')
        @ lit ''</sub>'']"

definition renderReviewMarkdown ::
  "(number \<Rightarrow> jsstring) \<Rightarrow> jsstring \<Rightarrow> Finding list \<Rightarrow> jsstring list \<Rightarrow> Recommendation
   \<Rightarrow> jsstring option \<Rightarrow> jsstring" where
  "renderReviewMarkdown print summary findings testingNotes recommendation sha =
     join [10] (renderReviewLines print summary findings testingNotes recommendation sha)"

section \<open>The diff pre-processor\<close>

definition MAX_DIFF_LENGTH :: nat where
  "MAX_DIFF_LENGTH = 60000"

text \<open>
  The truncation step of \<^verbatim>\<open>handleReview\<close>: the diff that is kept and the flag
  \<^verbatim>\<open>truncatedDiff\<close>.
\<close>

definition truncateDiff :: "jsstring \<Rightarrow> jsstring \<times> bool" where
  "truncateDiff diff =
     (if length diff > MAX_DIFF_LENGTH
      then (slice diff 0 (int MAX_DIFF_LENGTH), True)
      else (diff, False))"

text \<open>\<^verbatim>\<open>/^\s*$/.test(content)\<close>: every code unit is white space.\<close>

definition allWhiteSpace :: "jsstring \<Rightarrow> bool" where
  "allWhiteSpace content = list_all isWhiteSpace content"

text \<open>
  The body of the loop of \<^verbatim>\<open>isTrivialDiff\<close> for one line: false when it ends in
  one of its \<^verbatim>\<open>continue\<close> statements, true when it reaches the assignment of
  \<^verbatim>\<open>hasSubstantiveChange\<close> and the \<^verbatim>\<open>break\<close>.
\<close>

definition substantive :: "jsstring \<Rightarrow> bool" where
  "substantive l =
     (if \<not> startsWith l (lit ''+'') \<and> \<not> startsWith l (lit ''-'') then False
      else if startsWith l (lit ''+++'') \<or> startsWith l (lit ''---'') then False
      else (let content = trim (slice_from l 1)
            in if content = [] then False
               else if startsWith content (lit ''//'') \<or> startsWith content (lit ''#'')
                       \<or> startsWith content (lit ''*'') \<or> startsWith content (lit ''/*'')
                       \<or> startsWith content (lit ''*/'')
               then False
               else if allWhiteSpace content then False
               else True))"

text \<open>
  The loop over the lines: its result is the value of \<^verbatim>\<open>hasSubstantiveChange\<close>
  when the loop ends. The \<^verbatim>\<open>break\<close> returns at once and leaves the remaining
  lines unread.
\<close>

fun hasSubstantiveChange :: "jsstring list \<Rightarrow> bool" where
  "hasSubstantiveChange [] = False"
| "hasSubstantiveChange (l # ls) = (if substantive l then True else hasSubstantiveChange ls)"

text \<open>The number of lines the same loop reads before it ends.\<close>

fun linesRead :: "jsstring list \<Rightarrow> nat" where
  "linesRead [] = 0"
| "linesRead (l # ls) = (if substantive l then 1 else Suc (linesRead ls))"

definition isTrivialDiff :: "jsstring \<Rightarrow> bool" where
  "isTrivialDiff diff = (\<not> hasSubstantiveChange (split_lines diff))"

text \<open>
  The words of the specification for a trivial diff. A changed line starts with a plus
  or a minus sign and is not a file header line, which starts with three of them; its
  content is the line without the sign and without the white space around; a content is
  blank or a comment when it is empty or starts with a comment marker.
\<close>

definition changed_line :: "jsstring \<Rightarrow> bool" where
  "changed_line l =
     ((startsWith l (lit ''+'') \<or> startsWith l (lit ''-''))
      \<and> \<not> startsWith l (lit ''+++'') \<and> \<not> startsWith l (lit ''---''))"

definition content_of :: "jsstring \<Rightarrow> jsstring" where
  "content_of l = trim (drop 1 l)"

definition blank_or_comment :: "jsstring \<Rightarrow> bool" where
  "blank_or_comment c =
     (c = [] \<or> startsWith c (lit ''//'') \<or> startsWith c (lit ''#'') \<or> startsWith c (lit ''*'')
      \<or> startsWith c (lit ''/*'') \<or> startsWith c (lit ''*/''))"

section \<open>The finding filter\<close>

text \<open>
  \<^verbatim>\<open>filterNonsensicalFindings\<close>. The test of a finding against the regular
  expressions of \<^verbatim>\<open>METADATA_NOISE_PATTERNS\<close> is the parameter \<open>isMetadataNoiseFinding\<close>:
  nothing proved below depends on which findings it takes for noise.
\<close>

definition filterNonsensicalFindings :: "(Finding \<Rightarrow> bool) \<Rightarrow> Finding list \<Rightarrow> Finding list" where
  "filterNonsensicalFindings isMetadataNoiseFinding findings =
     filter (\<lambda>f. \<not> isMetadataNoiseFinding f) findings"

section \<open>The prompt builder\<close>

datatype Mode = Summary | Inline

definition mode_string :: "Mode \<Rightarrow> jsstring" where
  "mode_string m = (case m of Summary \<Rightarrow> lit ''summary'' | Inline \<Rightarrow> lit ''inline'')"

record ReviewRequest =
  req_diff :: jsstring
  req_provider :: "jsstring option"
  req_repo :: "jsstring option"
  req_prNumber :: "number option"
  req_mrIid :: "number option"
  req_sha :: "jsstring option"
  req_title :: "jsstring option"
  req_description :: "jsstring option"
  req_mode :: Mode
  req_rulesMd :: "jsstring option"

text \<open>\<^verbatim>\<open>buildUserPrompt\<close>: the parts pushed, joined by two line feeds.\<close>

definition buildUserPrompt :: "ReviewRequest \<Rightarrow> bool \<Rightarrow> jsstring" where
  "buildUserPrompt req truncated =
     join [10, 10]
       ((if truthy_string (req_title req) then [lit ''PR Title: '' @ the (req_title req)] else [])
        @ (if truthy_string (req_description req)
           then [lit ''PR Description: '' @ the (req_description req)] else [])
        @ (if truthy_string (req_rulesMd req)
           then [lit ''Additional Review Rules:'' @ [10] @ the (req_rulesMd req)] else [])
        @ [lit ''Review Mode: '' @ mode_string (req_mode req)]
        @ (if truncated then [lit ''Note: The diff was truncated due to length limits.''] else [])
        @ [[10] @ lit ''Diff to review:'' @ [10] @ backtick @ backtick @ backtick @ lit ''diff''
           @ [10] @ req_diff req @ [10] @ backtick @ backtick @ backtick])"

definition strictSuffix :: jsstring where
  "strictSuffix = [10, 10] @ lit ''IMPORTANT: Return ONLY a single valid JSON object (double quotes for keys/strings). No markdown, no code fences, no commentary.''"

definition retrySuffix :: jsstring where
  "retrySuffix = [10, 10] @ lit ''Your previous response was not valid JSON. Try again and output ONLY valid JSON.''"

section \<open>The inference binding\<close>

text \<open>
  What \<^verbatim>\<open>env.AI.run\<close> receives: the content of the system message and of the user
  message (the model and the response format are the same in every call). What it does:
  it returns a value (\<open>None\<close> is \<^verbatim>\<open>undefined\<close>) or throws.
\<close>

record AiInput =
  system_content :: jsstring
  user_content :: jsstring

datatype AiOutcome = Returns "json option" | Throws "jsstring option"

text \<open>
  The world outside the handler: how the binding answers its first, second, ... call,
  the calls made so far, and the identifiers \<^verbatim>\<open>crypto.randomUUID()\<close> hands out.
\<close>

record World =
  ai_answers :: "nat \<Rightarrow> AiOutcome"
  ai_calls :: "AiInput list"
  uuid_source :: "nat \<Rightarrow> jsstring"
  uuid_count :: nat

definition AI_run :: "AiInput \<Rightarrow> World \<Rightarrow> AiOutcome \<times> World" where
  "AI_run input w = (ai_answers w (length (ai_calls w)), w\<lparr>ai_calls := ai_calls w @ [input]\<rparr>)"

definition randomUUID :: "World \<Rightarrow> jsstring \<times> World" where
  "randomUUID w = (uuid_source w (uuid_count w), w\<lparr>uuid_count := Suc (uuid_count w)\<rparr>)"

text \<open>
  The functions of the engine the program calls: \<^verbatim>\<open>JSON.parse\<close> (the value, or the
  message of the \<^verbatim>\<open>SyntaxError\<close>), \<^verbatim>\<open>String(v)\<close> and the printing of a number
  in a template literal.
\<close>

record Engine =
  JSON_parse :: "jsstring \<Rightarrow> jsstring + json"
  String_of :: "json \<Rightarrow> jsstring"
  Number_toString :: "number \<Rightarrow> jsstring"

text \<open>
  The loops of \<^verbatim>\<open>getAiResponseText\<close> over \<^verbatim>\<open>obj.output\<close> and over the content of
  one of its items: the texts found are pushed to \<^verbatim>\<open>chunks\<close>.
\<close>

fun contentChunks :: "json list \<Rightarrow> jsstring list \<Rightarrow> jsstring list" where
  "contentChunks [] chunks = chunks"
| "contentChunks (c # cs) chunks =
     (if typeof (Some c) \<noteq> TObject \<or> c = JNull then contentChunks cs chunks
      else if typeof (get_prop c (lit ''text'')) = TString
      then contentChunks cs (chunks @ [the_string (get_prop c (lit ''text''))])
      else contentChunks cs chunks)"

fun outputChunks :: "json list \<Rightarrow> jsstring list \<Rightarrow> jsstring list" where
  "outputChunks [] chunks = chunks"
| "outputChunks (item # items) chunks =
     (if typeof (Some item) \<noteq> TObject \<or> item = JNull then outputChunks items chunks
      else if isArray (get_prop item (lit ''content''))
      then outputChunks items (contentChunks (elements (get_prop item (lit ''content''))) chunks)
      else outputChunks items chunks)"

definition getAiResponseText :: "Engine \<Rightarrow> json option \<Rightarrow> error + jsstring" where
  "getAiResponseText eng aiResponse =
     (if typeof aiResponse = TString then Inr (the_string aiResponse)
      else if typeof aiResponse \<noteq> TObject \<or> aiResponse = Some JNull then Inl UnexpectedFormat
      else (let obj = the aiResponse
            in if get_prop obj (lit ''response'') \<noteq> None
               then Inr (String_of eng (the (get_prop obj (lit ''response''))))
               else if get_prop obj (lit ''output_text'') \<noteq> None
               then Inr (String_of eng (the (get_prop obj (lit ''output_text''))))
               else if get_prop obj (lit ''output'') \<noteq> None
                       \<and> isArray (get_prop obj (lit ''output''))
                       \<and> length (outputChunks (elements (get_prop obj (lit ''output''))) []) > 0
               then Inr (join [10] (outputChunks (elements (get_prop obj (lit ''output''))) []))
               else Inl UnexpectedFormat))"

section \<open>The handler\<close>

text \<open>What the variants share: the meta data, the responses, the request and its checks.\<close>

record Meta =
  m_provider :: "jsstring option"
  m_repo :: "jsstring option"
  m_sha :: "jsstring option"
  m_mode :: Mode
  m_truncatedDiff :: bool

text \<open>
  A response is its status and the value that \<^verbatim>\<open>jsonResponse\<close> serialises: an
  \<^verbatim>\<open>ErrorResponse\<close> with its message, or the \<^verbatim>\<open>ReviewResponse\<close> of the
  variant, which is the type parameter.
\<close>

datatype 'r Body = ErrorBody jsstring | ReviewBody 'r

record 'r Response =
  status :: nat
  body :: "'r Body"

definition jsonResponse :: "'r Body \<Rightarrow> nat \<Rightarrow> 'r Response" where
  "jsonResponse data st = \<lparr> status = st, body = data \<rparr>"

definition errorResponse :: "jsstring \<Rightarrow> nat \<Rightarrow> 'r Response" where
  "errorResponse err st = jsonResponse (ErrorBody err) st"

text \<open>
  A request is the value of its \<^verbatim>\<open>Authorization\<close> header (\<open>None\<close> when there is
  none) and the text of its body, which \<^verbatim>\<open>request.json()\<close> parses.
\<close>

record Request =
  authorization :: "jsstring option"
  body_text :: jsstring

record Env =
  AUTH_TOKEN :: jsstring

text \<open>\<^verbatim>\<open>typeof v === "string" ? v : undefined\<close>, and the same for a number.\<close>

definition string_or_undefined :: "json option \<Rightarrow> jsstring option" where
  "string_or_undefined v = (if typeof v = TString then Some (the_string v) else None)"

definition number_or_undefined :: "json option \<Rightarrow> number option" where
  "number_or_undefined v = (if typeof v = TNumber then Some (the_number v) else None)"

text \<open>The \<^verbatim>\<open>ReviewRequest\<close> built from the body of the request.\<close>

definition reviewRequest :: "json \<Rightarrow> ReviewRequest" where
  "reviewRequest reqBody =
     \<lparr> req_diff = the_string (get_prop reqBody (lit ''diff'')),
       req_provider = string_or_undefined (get_prop reqBody (lit ''provider'')),
       req_repo = string_or_undefined (get_prop reqBody (lit ''repo'')),
       req_prNumber = number_or_undefined (get_prop reqBody (lit ''prNumber'')),
       req_mrIid = number_or_undefined (get_prop reqBody (lit ''mrIid'')),
       req_sha = string_or_undefined (get_prop reqBody (lit ''sha'')),
       req_title = string_or_undefined (get_prop reqBody (lit ''title'')),
       req_description = string_or_undefined (get_prop reqBody (lit ''description'')),
       req_mode = (if get_prop reqBody (lit ''mode'') = Some (JStr (lit ''inline''))
                   then Inline else Summary),
       req_rulesMd = string_or_undefined (get_prop reqBody (lit ''rulesMd'')) \<rparr>"

definition metaOf :: "ReviewRequest \<Rightarrow> bool \<Rightarrow> Meta" where
  "metaOf reviewReq truncatedDiff =
     \<lparr> m_provider = req_provider reviewReq,
       m_repo = req_repo reviewReq,
       m_sha = req_sha reviewReq,
       m_mode = req_mode reviewReq,
       m_truncatedDiff = truncatedDiff \<rparr>"

subsection \<open>The variant with the retry\<close>

text \<open>
  The constants of the variant with the retry. In \<^verbatim>\<open>SYSTEM_PROMPT\<close> the lines of the
  template literal are joined by line feeds.
\<close>

definition AI_MODEL :: jsstring where
  "AI_MODEL = lit ''@cf/openai/gpt-oss-120b''"

definition SYSTEM_PROMPT :: jsstring where
  "SYSTEM_PROMPT = join [10]
     [
      lit ''You are Diff-Sheriff, a senior/lead engineer conducting a thorough PR review. Your job is to review code diffs and provide actionable, high-signal feedback.'',
      [],
      lit ''Priorities (in order):'',
      lit ''1. Correctness '' @ [8212] @ lit '' bugs, logic errors, edge cases'',
      lit ''2. Security '' @ [8212] @ lit '' vulnerabilities, data exposure, injection risks'',
      lit ''3. Maintainability '' @ [8212] @ lit '' clarity, testability, future-proofing'',
      lit ''4. Performance '' @ [8212] @ lit '' only if clearly impactful'',
      [],
      lit ''Rules:'',
      lit ''- ONLY comment on actual code changes visible in the diff. Do NOT invent feedback.'',
      lit ''- Do NOT comment on missing PR title, description, or other metadata. Do NOT give process feedback.'',
      lit ''- Do NOT flag GitHub Actions secrets references like '' @ [96, 36, 123, 123] @ lit '' secrets.'' @ [42] @ lit '' '' @ [125, 125, 96] @ lit '' as hardcoded secrets.'',
      lit ''- Do NOT comment on code style unless it significantly impacts readability.'',
      lit ''- Be concise and specific. Avoid nitpicks unless they matter.'',
      lit ''- If the diff only contains comments, whitespace, or trivial changes with no functional impact, return an empty findings array.'',
      lit ''- Output ONLY valid JSON matching the schema below. No markdown, no explanations outside JSON.'',
      [],
      lit ''Severity guide:'',
      lit ''- high: Bugs, security issues, data loss risks '' @ [8212] @ lit '' must fix before merge'',
      lit ''- medium: Logic issues, missing validation, poor error handling '' @ [8212] @ lit '' should fix'',
      lit ''- low: Minor improvements, edge cases, clarity '' @ [8212] @ lit '' nice to have'',
      lit ''- nit: Trivial suggestions '' @ [8212] @ lit '' only include if truly valuable'',
      [],
      lit ''Output JSON Schema:'',
      [123],
      lit ''  '' @ [34] @ lit ''summary'' @ [34] @ lit '': '' @ [34] @ lit ''string - 2-4 sentence high-level assessment of the actual code changes'' @ [34] @ lit '','',
      lit ''  '' @ [34] @ lit ''findings'' @ [34] @ lit '': ['',
      lit ''    '' @ [123],
      lit ''      '' @ [34] @ lit ''severity'' @ [34] @ lit '': '' @ [34] @ lit ''high'' @ [34] @ lit '' | '' @ [34] @ lit ''medium'' @ [34] @ lit '' | '' @ [34] @ lit ''low'' @ [34] @ lit '' | '' @ [34] @ lit ''nit'' @ [34] @ lit '','',
      lit ''      '' @ [34] @ lit ''title'' @ [34] @ lit '': '' @ [34] @ lit ''string - Short title for the issue'' @ [34] @ lit '','',
      lit ''      '' @ [34] @ lit ''rationale'' @ [34] @ lit '': '' @ [34] @ lit ''string - Why this is a problem'' @ [34] @ lit '','',
      lit ''      '' @ [34] @ lit ''suggestion'' @ [34] @ lit '': '' @ [34] @ lit ''string (optional) - How to fix it'' @ [34] @ lit '','',
      lit ''      '' @ [34] @ lit ''file'' @ [34] @ lit '': '' @ [34] @ lit ''string (optional) - File path if identifiable'' @ [34] @ lit '','',
      lit ''      '' @ [34] @ lit ''line'' @ [34] @ lit '': '' @ [34] @ lit ''number (optional) - Line number if identifiable'' @ [34],
      lit ''    '' @ [125],
      lit ''  ],'',
      lit ''  '' @ [34] @ lit ''testingNotes'' @ [34] @ lit '': ['' @ [34] @ lit ''string (optional) - 1-3 testing suggestions if relevant'' @ [34] @ lit '']'',
      [125],
      [],
      lit ''If the diff looks good with no issues, return:'',
      [123],
      lit ''  '' @ [34] @ lit ''summary'' @ [34] @ lit '': '' @ [34] @ lit ''Code looks good. No significant issues found.'' @ [34] @ lit '','',
      lit ''  '' @ [34] @ lit ''findings'' @ [34] @ lit '': [],'',
      lit ''  '' @ [34] @ lit ''testingNotes'' @ [34] @ lit '': []'',
      [125]
     ]"

record ReviewResponse =
  r_reviewId :: jsstring
  r_summary :: jsstring
  r_findings :: "Finding list"
  r_commentMd :: jsstring
  r_recommendation :: Recommendation
  r_meta :: Meta

text \<open>The reply to a trivial diff: no inference call is made.\<close>

definition trivialSummary :: jsstring where
  "trivialSummary = lit ''Trivial change (comments, whitespace, or non-functional). No issues found.''"

definition trivialResponse ::
  "Engine \<Rightarrow> ReviewRequest \<Rightarrow> bool \<Rightarrow> World \<Rightarrow> ReviewResponse Response \<times> World" where
  "trivialResponse eng reviewReq truncatedDiff w =
     (let trivialCommentMd =
            renderReviewMarkdown (Number_toString eng) trivialSummary [] [] Approve
              (req_sha reviewReq);
          (uuid, w') = randomUUID w
      in (jsonResponse
            (ReviewBody
               \<lparr> r_reviewId = uuid,
                 r_summary = trivialSummary,
                 r_findings = [],
                 r_commentMd = trivialCommentMd,
                 r_recommendation = Approve,
                 r_meta = metaOf reviewReq truncatedDiff \<rparr>) 200, w'))"

text \<open>
  The body of both \<^verbatim>\<open>try\<close> blocks that read a reply: \<^verbatim>\<open>extractJson\<close>, then
  \<^verbatim>\<open>validateAiResponse\<close>.
\<close>

definition parseAndValidate :: "Engine \<Rightarrow> jsstring \<Rightarrow> error + Validated" where
  "parseAndValidate eng text =
     (case extractJson (JSON_parse eng) text of
        Inl err \<Rightarrow> Inl err
      | Inr parsed \<Rightarrow> validateAiResponse parsed)"

text \<open>One inference call and the text of its reply.\<close>

definition inferText :: "Engine \<Rightarrow> jsstring \<Rightarrow> World \<Rightarrow> (error + jsstring) \<times> World" where
  "inferText eng content w =
     (let (outcome, w') = AI_run \<lparr> system_content = SYSTEM_PROMPT, user_content = content \<rparr> w
      in (case outcome of
            Throws m \<Rightarrow> Inl (Thrown m)
          | Returns aiResponse \<Rightarrow> getAiResponseText eng aiResponse, w'))"

text \<open>
  The \<^verbatim>\<open>catch\<close> block of the first attempt: a second inference call with the retry
  instruction appended, and its reply extracted and validated. Whatever is thrown in the
  block is caught by its own \<^verbatim>\<open>catch\<close>.
\<close>

definition retryAttempt :: "Engine \<Rightarrow> jsstring \<Rightarrow> World \<Rightarrow> (error + Validated) \<times> World" where
  "retryAttempt eng strictUserPrompt w =
     (let (retryText, w') = inferText eng (strictUserPrompt @ retrySuffix) w
      in (case retryText of
            Inl retryErr \<Rightarrow> Inl retryErr
          | Inr t \<Rightarrow> parseAndValidate eng t, w'))"

text \<open>The end of the handler: filter, recommendation, report and response.\<close>

definition reviewResponse ::
  "Engine \<Rightarrow> (Finding \<Rightarrow> bool) \<Rightarrow> ReviewRequest \<Rightarrow> bool \<Rightarrow> Validated \<Rightarrow> World
   \<Rightarrow> ReviewResponse Response \<times> World" where
  "reviewResponse eng isMetadataNoiseFinding reviewReq truncatedDiff validated w =
     (let filteredFindings = filterNonsensicalFindings isMetadataNoiseFinding (v_findings validated);
          recommendation = deriveRecommendation filteredFindings;
          commentMd =
            renderReviewMarkdown (Number_toString eng) (v_summary validated) filteredFindings
              (v_testingNotes validated) recommendation (req_sha reviewReq);
          (uuid, w') = randomUUID w
      in (jsonResponse
            (ReviewBody
               \<lparr> r_reviewId = uuid,
                 r_summary = v_summary validated,
                 r_findings = filteredFindings,
                 r_commentMd = commentMd,
                 r_recommendation = recommendation,
                 r_meta = metaOf reviewReq truncatedDiff \<rparr>) 200, w'))"

text \<open>The handler from the truncation on, for a request that passed the checks.\<close>

definition reviewDiff ::
  "Engine \<Rightarrow> (Finding \<Rightarrow> bool) \<Rightarrow> ReviewRequest \<Rightarrow> World
   \<Rightarrow> ReviewResponse Response \<times> World" where
  "reviewDiff eng isMetadataNoiseFinding request w =
     (let (kept, truncatedDiff) = truncateDiff (req_diff request);
          reviewReq = request\<lparr>req_diff := kept\<rparr>
      in if isTrivialDiff (req_diff reviewReq)
         then trivialResponse eng reviewReq truncatedDiff w
         else
           (let userPrompt = buildUserPrompt reviewReq truncatedDiff;
                strictUserPrompt = userPrompt @ strictSuffix;
                (aiResponseText, w1) = inferText eng strictUserPrompt w
            in case aiResponseText of
                 Inl err \<Rightarrow>
                   (errorResponse
                      (lit ''AI failure: '' @ error_message err (lit ''Unknown AI error'')) 500, w1)
               | Inr t \<Rightarrow>
                   (case parseAndValidate eng t of
                      Inr validated \<Rightarrow>
                        reviewResponse eng isMetadataNoiseFinding reviewReq truncatedDiff validated w1
                    | Inl err \<Rightarrow>
                        (let (retried, w2) = retryAttempt eng strictUserPrompt w1
                         in case retried of
                              Inl retryErr \<Rightarrow>
                                (errorResponse
                                   (lit ''AI response parsing failed: ''
                                    @ error_message retryErr (lit ''Failed to parse AI response''))
                                   500, w2)
                            | Inr validated \<Rightarrow>
                                reviewResponse eng isMetadataNoiseFinding reviewReq truncatedDiff
                                  validated w2))))"

text \<open>\<^verbatim>\<open>handleReview\<close>.\<close>

definition handleReview ::
  "Engine \<Rightarrow> (Finding \<Rightarrow> bool) \<Rightarrow> Request \<Rightarrow> Env \<Rightarrow> World
   \<Rightarrow> ReviewResponse Response \<times> World" where
  "handleReview eng isMetadataNoiseFinding request env w =
     (if \<not> truthy_string (authorization request)
         \<or> \<not> startsWith (the (authorization request)) (lit ''Bearer '')
      then (errorResponse (lit ''Unauthorized: Missing or invalid Authorization header'') 401, w)
      else if slice_from (the (authorization request)) 7 \<noteq> AUTH_TOKEN env
      then (errorResponse (lit ''Unauthorized: Invalid token'') 401, w)
      else (case JSON_parse eng (body_text request) of
              Inl m \<Rightarrow> (errorResponse (lit ''Invalid JSON body'') 400, w)
            | Inr reqBody \<Rightarrow>
                if typeof (Some reqBody) \<noteq> TObject \<or> reqBody = JNull
                then (errorResponse (lit ''Request body must be a JSON object'') 400, w)
                else if typeof (get_prop reqBody (lit ''diff'')) \<noteq> TString
                        \<or> trim (the_string (get_prop reqBody (lit ''diff''))) = []
                then (errorResponse
                        (lit ''Missing or empty '' @ [39] @ lit ''diff'' @ [39] @ lit '' field'')
                        400, w)
                else reviewDiff eng isMetadataNoiseFinding (reviewRequest reqBody) w))"

subsection \<open>The variant of src/index.ts\<close>

text \<open>
  The handler of \<^verbatim>\<open>src/index.ts\<close>: the same checks and the same truncation, one
  inference call, no retry, and a response without report and recommendation.
\<close>

definition SYSTEM_PROMPT_index :: jsstring where
  "SYSTEM_PROMPT_index = join [10]
     [
      lit ''You are Diff-Sheriff, an expert code reviewer. Your job is to review code diffs and provide actionable feedback.'',
      [],
      lit ''Rules:'',
      lit ''- Only comment on code visible in the diff or its immediate context.'',
      lit ''- Be concise and specific.'',
      lit ''- Focus on bugs, security issues, performance problems, and code quality.'',
      lit ''- Do not comment on code style unless it impacts readability significantly.'',
      lit ''- Output ONLY valid JSON matching the schema below. No markdown, no explanations outside JSON.'',
      [],
      lit ''Output JSON Schema:'',
      [123],
      lit ''  '' @ [34] @ lit ''summary'' @ [34] @ lit '': '' @ [34] @ lit ''string - Brief overall assessment (1-3 sentences)'' @ [34] @ lit '','',
      lit ''  '' @ [34] @ lit ''findings'' @ [34] @ lit '': ['',
      lit ''    '' @ [123],
      lit ''      '' @ [34] @ lit ''severity'' @ [34] @ lit '': '' @ [34] @ lit ''high'' @ [34] @ lit '' | '' @ [34] @ lit ''medium'' @ [34] @ lit '' | '' @ [34] @ lit ''low'' @ [34] @ lit '' | '' @ [34] @ lit ''nit'' @ [34] @ lit '','',
      lit ''      '' @ [34] @ lit ''title'' @ [34] @ lit '': '' @ [34] @ lit ''string - Short title for the issue'' @ [34] @ lit '','',
      lit ''      '' @ [34] @ lit ''rationale'' @ [34] @ lit '': '' @ [34] @ lit ''string - Why this is a problem'' @ [34] @ lit '','',
      lit ''      '' @ [34] @ lit ''suggestion'' @ [34] @ lit '': '' @ [34] @ lit ''string (optional) - How to fix it'' @ [34] @ lit '','',
      lit ''      '' @ [34] @ lit ''file'' @ [34] @ lit '': '' @ [34] @ lit ''string (optional) - File path if identifiable'' @ [34] @ lit '','',
      lit ''      '' @ [34] @ lit ''line'' @ [34] @ lit '': '' @ [34] @ lit ''number (optional) - Line number if identifiable'' @ [34],
      lit ''    '' @ [125],
      lit ''  ]'',
      [125],
      [],
      lit ''If the diff looks good with no issues, return:'',
      [123],
      lit ''  '' @ [34] @ lit ''summary'' @ [34] @ lit '': '' @ [34] @ lit ''Code looks good. No significant issues found.'' @ [34] @ lit '','',
      lit ''  '' @ [34] @ lit ''findings'' @ [34] @ lit '': []'',
      [125]
     ]"

record Validated_index =
  vi_summary :: jsstring
  vi_findings :: "Finding list"

definition validateAiResponse_index :: "json \<Rightarrow> error + Validated_index" where
  "validateAiResponse_index parsed =
     (if typeof (Some parsed) \<noteq> TObject \<or> parsed = JNull then Inl NotAnObject
      else if typeof (get_prop parsed (lit ''summary'')) \<noteq> TString then Inl MissingSummary
      else Inr
        \<lparr> vi_summary = the_string (get_prop parsed (lit ''summary'')),
          vi_findings =
            (if isArray (get_prop parsed (lit ''findings''))
             then collectFindings (elements (get_prop parsed (lit ''findings''))) []
             else []) \<rparr>)"

record ReviewResponse_index =
  i_reviewId :: jsstring
  i_summary :: jsstring
  i_findings :: "Finding list"
  i_meta :: Meta

text \<open>The text of the reply: the \<^verbatim>\<open>response\<close> property of an object, as a string.\<close>

definition responseText_index :: "Engine \<Rightarrow> json option \<Rightarrow> error + jsstring" where
  "responseText_index eng aiResponse =
     (if typeof aiResponse = TObject \<and> aiResponse \<noteq> Some JNull
         \<and> get_prop (the aiResponse) (lit ''response'') \<noteq> None
      then Inr (String_of eng (the (get_prop (the aiResponse) (lit ''response''))))
      else Inl UnexpectedFormat)"

text \<open>The handler from the truncation on, for a request that passed the checks.\<close>

definition reviewDiff_index ::
  "Engine \<Rightarrow> ReviewRequest \<Rightarrow> World \<Rightarrow> ReviewResponse_index Response \<times> World" where
  "reviewDiff_index eng request w =
     (let (kept, truncatedDiff) = truncateDiff (req_diff request);
          reviewReq = request\<lparr>req_diff := kept\<rparr>;
          userPrompt = buildUserPrompt reviewReq truncatedDiff;
          (outcome, w1) =
            AI_run \<lparr> system_content = SYSTEM_PROMPT_index, user_content = userPrompt \<rparr> w
      in case (case outcome of
                 Throws m \<Rightarrow> Inl (Thrown m)
               | Returns aiResponse \<Rightarrow> responseText_index eng aiResponse) of
           Inl err \<Rightarrow>
             (errorResponse
                (lit ''AI failure: '' @ error_message err (lit ''Unknown AI error'')) 500, w1)
         | Inr aiResponseText \<Rightarrow>
             (case (case extractJson (JSON_parse eng) aiResponseText of
                      Inl err \<Rightarrow> Inl err
                    | Inr parsed \<Rightarrow> validateAiResponse_index parsed) of
                Inl err \<Rightarrow>
                  (errorResponse
                     (lit ''AI response parsing failed: ''
                      @ error_message err (lit ''Failed to parse AI response'')) 500, w1)
              | Inr validated \<Rightarrow>
                  (let (uuid, w2) = randomUUID w1
                   in (jsonResponse
                         (ReviewBody
                            \<lparr> i_reviewId = uuid,
                              i_summary = vi_summary validated,
                              i_findings = vi_findings validated,
                              i_meta = metaOf reviewReq truncatedDiff \<rparr>) 200, w2))))"

text \<open>\<^verbatim>\<open>handleReview\<close> of \<^verbatim>\<open>src/index.ts\<close>.\<close>

definition handleReview_index ::
  "Engine \<Rightarrow> Request \<Rightarrow> Env \<Rightarrow> World \<Rightarrow> ReviewResponse_index Response \<times> World" where
  "handleReview_index eng request env w =
     (if \<not> truthy_string (authorization request)
         \<or> \<not> startsWith (the (authorization request)) (lit ''Bearer '')
      then (errorResponse (lit ''Unauthorized: Missing or invalid Authorization header'') 401, w)
      else if slice_from (the (authorization request)) 7 \<noteq> AUTH_TOKEN env
      then (errorResponse (lit ''Unauthorized: Invalid token'') 401, w)
      else (case JSON_parse eng (body_text request) of
              Inl m \<Rightarrow> (errorResponse (lit ''Invalid JSON body'') 400, w)
            | Inr reqBody \<Rightarrow>
                if typeof (Some reqBody) \<noteq> TObject \<or> reqBody = JNull
                then (errorResponse (lit ''Request body must be a JSON object'') 400, w)
                else if typeof (get_prop reqBody (lit ''diff'')) \<noteq> TString
                        \<or> trim (the_string (get_prop reqBody (lit ''diff''))) = []
                then (errorResponse
                        (lit ''Missing or empty '' @ [39] @ lit ''diff'' @ [39] @ lit '' field'')
                        400, w)
                else reviewDiff_index eng (reviewRequest reqBody) w))"

section \<open>Values for the examples\<close>

text \<open>
  Four elements for the examples: a valid high finding, one without a rationale, one of
  severity critical, and a valid nit.
\<close>

definition element_high :: json where
  "element_high =
     JObj [(lit ''severity'', JStr (lit ''high'')), (lit ''title'', JStr (lit ''Injection'')),
           (lit ''rationale'', JStr (lit ''Input reaches eval''))]"

definition element_no_rationale :: json where
  "element_no_rationale =
     JObj [(lit ''severity'', JStr (lit ''medium'')), (lit ''title'', JStr (lit ''Naming''))]"

definition element_critical :: json where
  "element_critical =
     JObj [(lit ''severity'', JStr (lit ''critical'')), (lit ''title'', JStr (lit ''Crash'')),
           (lit ''rationale'', JStr (lit ''Null dereference''))]"

definition element_nit :: json where
  "element_nit =
     JObj [(lit ''severity'', JStr (lit ''nit'')), (lit ''title'', JStr (lit ''Typo'')),
           (lit ''rationale'', JStr (lit ''Spelling''))]"

text \<open>An element with the line \<open>-5\<close>, one with the line \<open>12\<close> and one with the line \<open>3/2\<close>.\<close>

definition element_line :: "number \<Rightarrow> json" where
  "element_line n =
     JObj [(lit ''severity'', JStr (lit ''low'')), (lit ''title'', JStr (lit ''Unused'')),
           (lit ''rationale'', JStr (lit ''Dead code'')), (lit ''file'', JStr (lit ''a.ts'')),
           (lit ''line'', JNum n)]"

text \<open>
  A request and two replies for the examples. The engine of the examples parses the
  body of the request and the JSON text of the good reply, and rejects every other
  text; its \<^verbatim>\<open>String\<close> returns a string as it is.
\<close>

definition request_text :: jsstring where
  \<open>request_text = lit ''{"diff":"+x = eval(input)","sha":"0123456789abcdef"}''\<close>

definition request_value :: json where
  "request_value =
     JObj [(lit ''diff'', JStr (lit ''+x = eval(input)'')),
           (lit ''sha'', JStr (lit ''0123456789abcdef''))]"

definition review_inner :: jsstring where
  \<open>review_inner = lit ''"summary":"Two issues","findings":[{"severity":"high","title":"Injection","rationale":"Input reaches eval"},{"severity":"medium","title":"Naming"},{"severity":"critical","title":"Crash","rationale":"Null dereference"},{"severity":"nit","title":"Typo","rationale":"Spelling"}]''\<close>

definition review_text :: jsstring where
  "review_text = lbrace # review_inner @ [rbrace]"

definition review_value :: json where
  "review_value =
     JObj [(lit ''summary'', JStr (lit ''Two issues'')),
           (lit ''findings'',
            JArr [element_high, element_no_rationale, element_critical, element_nit])]"

definition example_engine :: Engine where
  "example_engine =
     \<lparr> JSON_parse =
         (\<lambda>s. if s = request_text then Inr request_value
              else if s = review_text then Inr review_value
              else Inl (lit ''Unexpected token'')),
       String_of = (\<lambda>v. the_string (Some v)),
       Number_toString = (\<lambda>n. lit ''0'') \<rparr>"

definition example_request :: Request where
  "example_request =
     \<lparr> authorization = Some (lit ''Bearer s3cret''), body_text = request_text \<rparr>"

definition example_env :: Env where
  "example_env = \<lparr> AUTH_TOKEN = lit ''s3cret'' \<rparr>"

definition chatter :: json where
  "chatter = JObj [(lit ''response'', JStr (lit ''I found two issues in this change.''))]"

definition good_reply :: json where
  "good_reply =
     JObj [(lit ''response'', JStr (lit ''Here is the review: '' @ review_text @ lit '' Done.''))]"

text \<open>
  Two worlds: in the first the binding answers with prose and then with the review, in
  the second it answers with prose every time.
\<close>

definition world_retry_succeeds :: World where
  "world_retry_succeeds =
     \<lparr> ai_answers = (\<lambda>n. if n = 0 then Returns (Some chatter) else Returns (Some good_reply)),
       ai_calls = [],
       uuid_source = (\<lambda>n. lit ''00000000-0000-4000-8000-000000000000''),
       uuid_count = 0 \<rparr>"

definition world_retry_fails :: World where
  "world_retry_fails =
     \<lparr> ai_answers = (\<lambda>n. Returns (Some chatter)),
       ai_calls = [],
       uuid_source = (\<lambda>n. lit ''00000000-0000-4000-8000-000000000000''),
       uuid_count = 0 \<rparr>"

text \<open>A request whose diff is white space only.\<close>

definition blank_request_text :: jsstring where
  \<open>blank_request_text = lit ''{"diff":"   '' @ [92, 116, 92, 110] @ lit '' "}''\<close>

definition blank_request_value :: json where
  "blank_request_value = JObj [(lit ''diff'', JStr [32, 32, 32, 9, 10, 32])]"

definition blank_engine :: Engine where
  "blank_engine =
     \<lparr> JSON_parse =
         (\<lambda>s. if s = blank_request_text then Inr blank_request_value
              else Inl (lit ''Unexpected token'')),
       String_of = (\<lambda>v. the_string (Some v)),
       Number_toString = (\<lambda>n. lit ''0'') \<rparr>"

text \<open>The findings that the examples pass around, and the prompt of the example request.\<close>

definition finding_high :: Finding where
  "finding_high =
     \<lparr> severity = High, title = lit ''Injection'', rationale = lit ''Input reaches eval'',
       suggestion = None, file = None, line = None \<rparr>"

definition finding_medium :: Finding where
  "finding_medium =
     \<lparr> severity = Medium, title = lit ''Naming'', rationale = lit ''Unclear name'',
       suggestion = None, file = None, line = None \<rparr>"

definition finding_low :: Finding where
  "finding_low =
     \<lparr> severity = Low, title = lit ''Unused'', rationale = lit ''Dead code'',
       suggestion = None, file = Some (lit ''a.ts''), line = None \<rparr>"

definition finding_nit :: Finding where
  "finding_nit =
     \<lparr> severity = Nit, title = lit ''Typo'', rationale = lit ''Spelling'',
       suggestion = None, file = None, line = None \<rparr>"

definition example_prompt :: jsstring where
  "example_prompt = buildUserPrompt (reviewRequest request_value) False @ strictSuffix"

definition blank_request :: Request where
  "blank_request =
     \<lparr> authorization = Some (lit ''Bearer s3cret''), body_text = blank_request_text \<rparr>"

text \<open>
  Three diffs: one whose changed lines are a comment and a blank line, one with a
  comment and then two statements, and one with context lines only.
\<close>

definition diff_comment_only :: jsstring where
  "diff_comment_only =
     lit ''--- a/f.ts'' @ [10] @ lit ''+++ b/f.ts'' @ [10] @ lit ''+ // note'' @ [10]
     @ lit ''-   '' @ [10] @ lit '' context''"

definition diff_with_statement :: jsstring where
  "diff_with_statement = lit ''+ // note'' @ [10] @ lit ''+ x = 1'' @ [10] @ lit ''+ y = 2''"

definition diff_context_only :: jsstring where
  "diff_context_only = lit '' unchanged'' @ [10] @ lit ''@@ -1 +1 @@''"

text \<open>
  Findings with an anchor: a file with the line 12 and a file with the line 0; the
  elements they are validated from are \<open>element_line (Finite 12)\<close> and
  \<open>element_line (Finite 0)\<close>.
\<close>

definition finding_anchored :: Finding where
  "finding_anchored =
     \<lparr> severity = Low, title = lit ''Unused'', rationale = lit ''Dead code'',
       suggestion = None, file = Some (lit ''a.ts''), line = Some (Finite 12) \<rparr>"

definition finding_line_zero :: Finding where
  "finding_line_zero =
     \<lparr> severity = Low, title = lit ''Unused'', rationale = lit ''Dead code'',
       suggestion = None, file = Some (lit ''a.ts''), line = Some (Finite 0) \<rparr>"

text \<open>A printer of numbers for the examples: it knows 12 and 0.\<close>

definition print_line :: "number \<Rightarrow> jsstring" where
  "print_line n = (if n = Finite 12 then lit ''12'' else lit ''0'')"

text \<open>A world in which the binding answers with the review at once.\<close>

definition world_reply_good :: World where
  "world_reply_good =
     \<lparr> ai_answers = (\<lambda>n. Returns (Some good_reply)),
       ai_calls = [],
       uuid_source = (\<lambda>n. lit ''00000000-0000-4000-8000-000000000000''),
       uuid_count = 0 \<rparr>"

section \<open>Properties of the string functions\<close>

lemma indexOf_from_absent:
  "c \<notin> set s \<Longrightarrow> indexOf_from s [c] i = - 1"
  by (induction s arbitrary: i) auto

lemma indexOf_from_first:
  "c \<notin> set pre \<Longrightarrow> indexOf_from (pre @ c # rest) [c] i = int (i + length pre)"
  by (induction pre arbitrary: i) auto

lemma lastIndexOf_from_absent:
  "c \<notin> set s \<Longrightarrow> lastIndexOf_from s [c] i found = found"
  by (induction s arbitrary: i found) auto

lemma lastIndexOf_from_last:
  "c \<notin> set post \<Longrightarrow>
   lastIndexOf_from (pre @ c # post) [c] i found = int (i + length pre)"
  by (induction pre arbitrary: i found) (auto simp: lastIndexOf_from_absent)

lemma indexOf_absent: "c \<notin> set s \<Longrightarrow> indexOf s [c] = - 1"
  by (simp add: indexOf_def indexOf_from_absent)

lemma indexOf_first:
  "c \<notin> set pre \<Longrightarrow> indexOf (pre @ c # rest) [c] = int (length pre)"
  by (simp add: indexOf_def indexOf_from_first)

lemma lastIndexOf_absent: "c \<notin> set s \<Longrightarrow> lastIndexOf s [c] = - 1"
  by (simp add: lastIndexOf_def lastIndexOf_from_absent)

lemma lastIndexOf_last:
  "c \<notin> set post \<Longrightarrow> lastIndexOf (pre @ c # post) [c] = int (length pre)"
  by (simp add: lastIndexOf_def lastIndexOf_from_last)

lemma slice_span:
  "slice (pre @ mid @ post) (int (length pre)) (int (length pre + length mid)) = mid"
  by (simp add: slice_def slice_index_def Let_def)

section \<open>Claims about the response extractor\<close>

lemma extractJson_no_lbrace:
  "lbrace \<notin> set text \<Longrightarrow> extractJson parse text = Inl NoJsonFound"
  by (simp add: extractJson_def indexOf_absent)

lemma extractJson_no_rbrace:
  "rbrace \<notin> set text \<Longrightarrow> extractJson parse text = Inl NoJsonFound"
  by (simp add: extractJson_def lastIndexOf_absent)

lemma extractJson_rbrace_before:
  assumes h: "text = pre @ lbrace # post" "lbrace \<notin> set pre" "rbrace \<notin> set post"
  shows "extractJson parse text = Inl NoJsonFound"
proof (cases "rbrace \<in> set pre")
  case False
  then have "rbrace \<notin> set text" using h by (simp add: lbrace_def rbrace_def)
  then show ?thesis by (rule extractJson_no_rbrace)
next
  case True
  have first: "indexOf text [lbrace] = int (length pre)"
    using h by (simp add: indexOf_first)
  from True obtain a b where ab: "pre = a @ rbrace # b" "rbrace \<notin> set b"
    by (meson split_list_last)
  have "rbrace \<notin> set (b @ lbrace # post)"
    using ab h by (simp add: lbrace_def rbrace_def)
  then have "lastIndexOf (a @ rbrace # (b @ lbrace # post)) [rbrace] = int (length a)"
    by (rule lastIndexOf_last)
  then have last: "lastIndexOf text [rbrace] = int (length a)"
    using h ab by simp
  show ?thesis using first last ab by (simp add: extractJson_def)
qed

lemma extractJson_span:
  assumes h: "text = pre @ lbrace # mid @ rbrace # post" "lbrace \<notin> set pre"
    "rbrace \<notin> set post"
  shows "extractJson parse text =
           (case parse (lbrace # mid @ [rbrace]) of
              Inl m \<Rightarrow> Inl (MalformedJson m)
            | Inr v \<Rightarrow> Inr v)"
proof -
  have first: "indexOf text [lbrace] = int (length pre)"
    using h by (simp add: indexOf_first)
  have "lastIndexOf ((pre @ lbrace # mid) @ rbrace # post) [rbrace]
          = int (length (pre @ lbrace # mid))"
    using h by (intro lastIndexOf_last) simp
  then have last: "lastIndexOf text [rbrace] = int (length pre + 1 + length mid)"
    using h by simp
  have "slice (pre @ (lbrace # mid @ [rbrace]) @ post) (int (length pre))
          (int (length pre + length (lbrace # mid @ [rbrace]))) = lbrace # mid @ [rbrace]"
    by (rule slice_span)
  then have sl: "slice text (int (length pre)) (int (length pre + 1 + length mid) + 1)
                   = lbrace # mid @ [rbrace]"
    using h by (simp add: add.commute add.left_commute)
  show ?thesis
    using first last sl by (simp add: extractJson_def Let_def)
qed

text \<open>
  Claim C1. \<^verbatim>\<open>extractJson\<close> parses the substring from the first opening brace to the
  last closing brace, both included, and returns the parsed value. It fails with the
  no-JSON-found error when the text has no opening brace, when it has no closing brace,
  and when its last closing brace stands before its first opening brace; it fails with
  the malformed-JSON error when the parser rejects that substring.
\<close>

theorem extractJson_first_to_last_brace:
  fixes parse :: "jsstring \<Rightarrow> jsstring + 'a"
  shows
  "(lbrace \<notin> set text \<longrightarrow> extractJson parse text = Inl NoJsonFound)
   \<and> (rbrace \<notin> set text \<longrightarrow> extractJson parse text = Inl NoJsonFound)
   \<and> (\<forall>pre post. text = pre @ lbrace # post \<and> lbrace \<notin> set pre \<and> rbrace \<notin> set post
        \<longrightarrow> extractJson parse text = Inl NoJsonFound)
   \<and> (\<forall>pre mid post.
        text = pre @ lbrace # mid @ rbrace # post \<and> lbrace \<notin> set pre \<and> rbrace \<notin> set post
        \<longrightarrow> extractJson parse text =
            (case parse (lbrace # mid @ [rbrace]) of
               Inl m \<Rightarrow> Inl (MalformedJson m)
             | Inr v \<Rightarrow> Inr v))"
proof (intro conjI allI impI)
  assume "lbrace \<notin> set text"
  then show "extractJson parse text = Inl NoJsonFound"
    by (rule extractJson_no_lbrace)
next
  assume "rbrace \<notin> set text"
  then show "extractJson parse text = Inl NoJsonFound"
    by (rule extractJson_no_rbrace)
next
  fix pre post
  assume h: "text = pre @ lbrace # post \<and> lbrace \<notin> set pre \<and> rbrace \<notin> set post"
  show "extractJson parse text = Inl NoJsonFound"
    by (rule extractJson_rbrace_before [where pre = pre and post = post]) (simp_all add: h)
next
  fix pre mid post
  assume h: "text = pre @ lbrace # mid @ rbrace # post \<and> lbrace \<notin> set pre
          \<and> rbrace \<notin> set post"
  show "extractJson parse text =
            (case parse (lbrace # mid @ [rbrace]) of
               Inl m \<Rightarrow> Inl (MalformedJson m)
             | Inr v \<Rightarrow> Inr v)"
    by (rule extractJson_span [where pre = pre and post = post]) (simp_all add: h)
qed

text \<open>
  The theorem at four texts: one without braces, one whose only closing brace precedes
  its opening brace, one with a JSON object between prose that the parser accepts, and
  the same text with a parser that rejects it. The first parser returns the text it is
  given, which shows the substring parsed.
\<close>

theorem extractJson_first_to_last_brace_witness:
  "extractJson (\<lambda>s. Inr s) (lit ''no json here'') = (Inl NoJsonFound :: error + jsstring)
   \<and> extractJson (\<lambda>s. Inr s) (lit ''} and then {'') = (Inl NoJsonFound :: error + jsstring)
   \<and> extractJson (\<lambda>s. Inr s) (lit ''here is the result: {a:{b:1}} thanks'')
       = (Inr (lit ''{a:{b:1}}'') :: error + jsstring)
   \<and> extractJson (\<lambda>s. Inl (lit ''Unexpected token'')) (lit ''here is the result: {a:{b:1}} thanks'')
       = (Inl (MalformedJson (lit ''Unexpected token'')) :: error + jsstring)"
proof -
  let ?ok = "(\<lambda>s. Inr s) :: jsstring \<Rightarrow> jsstring + jsstring"
  let ?bad = "(\<lambda>s. Inl (lit ''Unexpected token'')) :: jsstring \<Rightarrow> jsstring + jsstring"
  let ?t = "lit ''here is the result: {a:{b:1}} thanks''"
  have a: "lbrace \<notin> set (lit ''no json here'')"
    by (simp add: lit_def lbrace_def)
  have b: "lit ''} and then {'' = lit ''} and then '' @ lbrace # []
           \<and> lbrace \<notin> set (lit ''} and then '') \<and> rbrace \<notin> set []"
    by (simp add: lit_def lbrace_def rbrace_def)
  have c: "?t = lit ''here is the result: '' @ lbrace # lit ''a:{b:1}'' @ rbrace # lit '' thanks''
           \<and> lbrace \<notin> set (lit ''here is the result: '') \<and> rbrace \<notin> set (lit '' thanks'')"
    by (simp add: lit_def lbrace_def rbrace_def)
  have d: "lbrace # lit ''a:{b:1}'' @ [rbrace] = lit ''{a:{b:1}}''"
    by (simp add: lit_def lbrace_def rbrace_def)
  note t = extractJson_first_to_last_brace
  from t [of "lit ''no json here''" ?ok] a
  have 1: "extractJson ?ok (lit ''no json here'') = Inl NoJsonFound" by blast
  from t [of "lit ''} and then {''" ?ok] b
  have 2: "extractJson ?ok (lit ''} and then {'') = Inl NoJsonFound" by blast
  from t [of ?t ?ok] c
  have "extractJson ?ok ?t =
          (case ?ok (lbrace # lit ''a:{b:1}'' @ [rbrace]) of
             Inl m \<Rightarrow> Inl (MalformedJson m) | Inr v \<Rightarrow> Inr v)"
    by blast
  then have 3: "extractJson ?ok ?t = Inr (lit ''{a:{b:1}}'')"
    using d by simp
  from t [of ?t ?bad] c
  have "extractJson ?bad ?t =
          (case ?bad (lbrace # lit ''a:{b:1}'' @ [rbrace]) of
             Inl m \<Rightarrow> Inl (MalformedJson m) | Inr v \<Rightarrow> Inr v)"
    by blast
  then have 4: "extractJson ?bad ?t = Inl (MalformedJson (lit ''Unexpected token''))"
    by simp
  from 1 2 3 4 show ?thesis by blast
qed

section \<open>Claims about the result validator\<close>

lemma collectFindings_eq:
  "collectFindings fs acc =
     acc @ map (the \<circ> validateFinding) (filter (\<lambda>f. validateFinding f \<noteq> None) fs)"
  by (induction fs arbitrary: acc) (auto split: option.splits)

lemma severity_of_cases:
  "severity_of s \<noteq> None \<longleftrightarrow> s \<in> {lit ''high'', lit ''medium'', lit ''low'', lit ''nit''}"
  by (auto simp: severity_of_def)

lemma validateFinding_missing_rationale:
  "get_prop f (lit ''rationale'') = None \<Longrightarrow> validateFinding f = None"
  by (simp add: validateFinding_def)

lemma validateFinding_bad_severity:
  "severity_of (the_string (get_prop f (lit ''severity''))) = None \<Longrightarrow> validateFinding f = None"
  by (simp add: validateFinding_def)

lemma elements_not_array: "\<not> isArray v \<Longrightarrow> elements v = []"
  by (cases v rule: elements.cases) simp_all

lemma Number_isInteger_iff: "Number_isInteger n \<longleftrightarrow> (\<exists>z::int. n = Finite (of_int z))"
proof (cases n)
  case (Finite q)
  have "(of_int \<lfloor>q\<rfloor> = q) \<longleftrightarrow> (\<exists>z::int. q = of_int z)"
  proof
    assume "of_int \<lfloor>q\<rfloor> = q"
    then have "q = of_int \<lfloor>q\<rfloor>" by (rule sym)
    then show "\<exists>z::int. q = of_int z" ..
  next
    assume "\<exists>z::int. q = of_int z"
    then obtain z :: int where "q = of_int z" ..
    then show "of_int \<lfloor>q\<rfloor> = q" by simp
  qed
  with Finite show ?thesis by simp
qed simp_all

lemma typeof_number: "typeof v = TNumber \<Longrightarrow> v = Some (JNum (the_number v))"
  by (cases v rule: typeof.cases) simp_all

lemma typeof_string_iff: "typeof v = TString \<longleftrightarrow> (\<exists>s. v = Some (JStr s))"
  by (cases v rule: typeof.cases) simp_all

lemma get_prop_object: "get_prop f k = Some x \<Longrightarrow> typeof (Some f) = TObject \<and> f \<noteq> JNull"
  by (cases f) simp_all

lemma names_distinct:
  "lit ''high'' \<noteq> lit ''medium''" "lit ''high'' \<noteq> lit ''low''" "lit ''high'' \<noteq> lit ''nit''"
  "lit ''medium'' \<noteq> lit ''low''" "lit ''medium'' \<noteq> lit ''nit''" "lit ''low'' \<noteq> lit ''nit''"
  by (simp_all add: lit_def)

lemma severity_of_name: "severity_of s = Some sev \<longleftrightarrow> s = severity_name sev"
proof (cases sev)
  case High
  then show ?thesis by (simp add: severity_of_def severity_name_def)
next
  case Medium
  then show ?thesis using names_distinct by (simp add: severity_of_def severity_name_def)
next
  case Low
  then show ?thesis using names_distinct by (simp add: severity_of_def severity_name_def)
next
  case Nit
  then show ?thesis using names_distinct by (simp add: severity_of_def severity_name_def)
qed

lemma optional_string_eq:
  "optional_string v = (if typeof v = TString \<and> the_string v \<noteq> [] then Some (the_string v) else None)"
  by (cases v rule: typeof.cases) (simp_all add: optional_string_def)

lemma validateFinding_eq:
  "validateFinding f =
     (if typeof (Some f) = TObject \<and> f \<noteq> JNull
         \<and> typeof (get_prop f (lit ''severity'')) = TString
         \<and> severity_of (the_string (get_prop f (lit ''severity''))) \<noteq> None
         \<and> typeof (get_prop f (lit ''title'')) = TString
         \<and> the_string (get_prop f (lit ''title'')) \<noteq> []
         \<and> typeof (get_prop f (lit ''rationale'')) = TString
         \<and> the_string (get_prop f (lit ''rationale'')) \<noteq> []
      then Some
        \<lparr> severity = the (severity_of (the_string (get_prop f (lit ''severity'')))),
          title = the_string (get_prop f (lit ''title'')),
          rationale = the_string (get_prop f (lit ''rationale'')),
          suggestion = optional_string (get_prop f (lit ''suggestion'')),
          file = optional_string (get_prop f (lit ''file'')),
          line =
            (if typeof (get_prop f (lit ''line'')) = TNumber
                \<and> Number_isInteger (the_number (get_prop f (lit ''line'')))
             then Some (the_number (get_prop f (lit ''line''))) else None) \<rparr>
      else None)"
  by (simp add: validateFinding_def optional_string_eq)

lemma severity_string_iff:
  "severity_string v \<longleftrightarrow> typeof v = TString \<and> severity_of (the_string v) \<noteq> None"
  by (cases v rule: severity_string.cases) (simp_all add: severity_of_def)

lemma nonempty_string_iff:
  "nonempty_string v \<longleftrightarrow> typeof v = TString \<and> the_string v \<noteq> []"
  by (cases v rule: nonempty_string.cases) simp_all

lemma typeof_string_object:
  "typeof (get_prop f k) = TString \<Longrightarrow> typeof (Some f) = TObject \<and> f \<noteq> JNull"
proof -
  assume "typeof (get_prop f k) = TString"
  then obtain s where "get_prop f k = Some (JStr s)" by (auto simp: typeof_string_iff)
  then show ?thesis by (rule get_prop_object)
qed

lemma validateFinding_accepts: "validateFinding f \<noteq> None \<longleftrightarrow> well_formed_finding f"
proof
  assume "validateFinding f \<noteq> None"
  then show "well_formed_finding f"
    by (simp add: validateFinding_eq well_formed_finding_def severity_string_iff
        nonempty_string_iff split: if_splits)
next
  assume w: "well_formed_finding f"
  then have "typeof (get_prop f (lit ''severity'')) = TString"
    by (simp add: well_formed_finding_def severity_string_iff)
  then have "typeof (Some f) = TObject \<and> f \<noteq> JNull" by (rule typeof_string_object)
  with w show "validateFinding f \<noteq> None"
    by (simp add: validateFinding_eq well_formed_finding_def severity_string_iff
        nonempty_string_iff)
qed

lemma validateFinding_fields:
  assumes "validateFinding f = Some v"
  shows "get_prop f (lit ''severity'') = Some (JStr (severity_name (severity v)))
         \<and> get_prop f (lit ''title'') = Some (JStr (title v))
         \<and> get_prop f (lit ''rationale'') = Some (JStr (rationale v))
         \<and> suggestion v = optional_string (get_prop f (lit ''suggestion''))
         \<and> file v = optional_string (get_prop f (lit ''file''))"
proof -
  let ?s = "get_prop f (lit ''severity'')" and ?t = "get_prop f (lit ''title'')"
  let ?r = "get_prop f (lit ''rationale'')"
  from assms have c: "typeof ?s = TString \<and> severity_of (the_string ?s) \<noteq> None
    \<and> typeof ?t = TString \<and> typeof ?r = TString"
    by (simp add: validateFinding_eq split: if_splits)
  from assms have e: "severity v = the (severity_of (the_string ?s))
    \<and> title v = the_string ?t \<and> rationale v = the_string ?r
    \<and> suggestion v = optional_string (get_prop f (lit ''suggestion''))
    \<and> file v = optional_string (get_prop f (lit ''file''))"
    by (auto simp: validateFinding_eq split: if_splits)
  from c e have "severity_of (the_string ?s) = Some (severity v)" by auto
  then have n: "the_string ?s = severity_name (severity v)" by (simp only: severity_of_name)
  from c obtain s where s: "?s = Some (JStr s)" by (auto simp: typeof_string_iff)
  from c obtain t where t: "?t = Some (JStr t)" by (auto simp: typeof_string_iff)
  from c obtain r where r: "?r = Some (JStr r)" by (auto simp: typeof_string_iff)
  from n s have 1: "?s = Some (JStr (severity_name (severity v)))" by simp
  from e t have 2: "?t = Some (JStr (title v))" by simp
  from e r have 3: "?r = Some (JStr (rationale v))" by simp
  from 1 2 3 e show ?thesis by simp
qed

lemma not_int_three_halves: "(of_int z :: rat) \<noteq> 3 / 2"
proof
  assume "(of_int z :: rat) = 3 / 2"
  then have "(of_int (2 * z) :: rat) = of_int 3" by simp
  then have "2 * z = 3" by (simp only: of_int_eq_iff)
  then show False by presburger
qed

lemma frac_not_integer: "\<not> Number_isInteger (Finite (3 / 2))"
  using not_int_three_halves by (auto simp: Number_isInteger_iff)

text \<open>
  Claim C2. Validation of a parsed object keeps, in their order, exactly the elements
  of its findings array that are well formed, which are the elements that
  \<^verbatim>\<open>validateFinding\<close> accepts: an element whose severity is one of high, medium, low
  and nit and whose title and rationale are strings that are not empty is accepted, and
  the finding made of it carries that severity, that title and that rationale, and the
  suggestion and the file of the element when they are strings that are not empty; every
  other element is dropped, so an element without a rationale and an element with a
  severity that is not one of the four. A findings field that is absent or not an array
  gives the empty sequence. The only errors of the validation are those of a value that
  is not an object and of a summary that is not a string; no findings field causes one.
\<close>

lemma accepted_iff: "(\<exists>y. validateFinding f = Some y) \<longleftrightarrow> well_formed_finding f"
  using validateFinding_accepts [of f] by simp

theorem validateAiResponse_findings:
  "(case validateAiResponse parsed of
      Inl err \<Rightarrow>
        (err = NotAnObject \<and> (typeof (Some parsed) \<noteq> TObject \<or> parsed = JNull))
        \<or> (err = MissingSummary \<and> typeof (get_prop parsed (lit ''summary'')) \<noteq> TString)
    | Inr v \<Rightarrow>
        v_findings v =
          map (the \<circ> validateFinding)
            (filter (\<lambda>f. validateFinding f \<noteq> None)
               (elements (get_prop parsed (lit ''findings''))))
        \<and> v_findings v =
          map (the \<circ> validateFinding)
            (filter well_formed_finding (elements (get_prop parsed (lit ''findings''))))
        \<and> (\<not> isArray (get_prop parsed (lit ''findings'')) \<longrightarrow> v_findings v = []))
   \<and> (\<forall>f. get_prop f (lit ''rationale'') = None \<longrightarrow> validateFinding f = None)
   \<and> (\<forall>f. the_string (get_prop f (lit ''severity''))
            \<notin> {lit ''high'', lit ''medium'', lit ''low'', lit ''nit''}
        \<longrightarrow> validateFinding f = None)
   \<and> (\<forall>f. \<not> well_formed_finding f \<longrightarrow> validateFinding f = None)
   \<and> (\<forall>f. well_formed_finding f \<longrightarrow>
        (\<exists>x. validateFinding f = Some x
           \<and> get_prop f (lit ''severity'') = Some (JStr (severity_name (severity x)))
           \<and> get_prop f (lit ''title'') = Some (JStr (title x)) \<and> title x \<noteq> []
           \<and> get_prop f (lit ''rationale'') = Some (JStr (rationale x)) \<and> rationale x \<noteq> []
           \<and> suggestion x = optional_string (get_prop f (lit ''suggestion''))
           \<and> file x = optional_string (get_prop f (lit ''file''))))"
proof (intro conjI allI impI)
  show "case validateAiResponse parsed of
      Inl err \<Rightarrow>
        (err = NotAnObject \<and> (typeof (Some parsed) \<noteq> TObject \<or> parsed = JNull))
        \<or> (err = MissingSummary \<and> typeof (get_prop parsed (lit ''summary'')) \<noteq> TString)
    | Inr v \<Rightarrow>
        v_findings v =
          map (the \<circ> validateFinding)
            (filter (\<lambda>f. validateFinding f \<noteq> None)
               (elements (get_prop parsed (lit ''findings''))))
        \<and> v_findings v =
          map (the \<circ> validateFinding)
            (filter well_formed_finding (elements (get_prop parsed (lit ''findings''))))
        \<and> (\<not> isArray (get_prop parsed (lit ''findings'')) \<longrightarrow> v_findings v = [])"
  proof (cases "isArray (get_prop parsed (lit ''findings''))")
    case True
    then show ?thesis
      by (simp add: validateAiResponse_def collectFindings_eq accepted_iff)
  next
    case False
    then show ?thesis
      by (simp add: validateAiResponse_def elements_not_array)
  qed
next
  fix f assume "get_prop f (lit ''rationale'') = None"
  then show "validateFinding f = None" by (rule validateFinding_missing_rationale)
next
  fix f assume "the_string (get_prop f (lit ''severity''))
            \<notin> {lit ''high'', lit ''medium'', lit ''low'', lit ''nit''}"
  then have "severity_of (the_string (get_prop f (lit ''severity''))) = None"
    using severity_of_cases by blast
  then show "validateFinding f = None" by (rule validateFinding_bad_severity)
next
  fix f assume "\<not> well_formed_finding f"
  with validateFinding_accepts [of f] show "validateFinding f = None" by blast
next
  fix f assume "well_formed_finding f"
  then have "validateFinding f \<noteq> None" by (simp only: validateFinding_accepts)
  then obtain x where x: "validateFinding f = Some x" by blast
  from x have n: "title x \<noteq> [] \<and> rationale x \<noteq> []"
    by (auto simp: validateFinding_eq split: if_splits)
  from validateFinding_fields [OF x] x n
  show "\<exists>x. validateFinding f = Some x
           \<and> get_prop f (lit ''severity'') = Some (JStr (severity_name (severity x)))
           \<and> get_prop f (lit ''title'') = Some (JStr (title x)) \<and> title x \<noteq> []
           \<and> get_prop f (lit ''rationale'') = Some (JStr (rationale x)) \<and> rationale x \<noteq> []
           \<and> suggestion x = optional_string (get_prop f (lit ''suggestion''))
           \<and> file x = optional_string (get_prop f (lit ''file''))"
    by blast
qed

lemma validate_element_high:
  "validateFinding element_high =
     Some \<lparr> severity = High, title = lit ''Injection'', rationale = lit ''Input reaches eval'',
            suggestion = None, file = None, line = None \<rparr>"
  by (simp add: element_high_def validateFinding_def severity_of_def lit_def)

lemma validate_element_nit:
  "validateFinding element_nit =
     Some \<lparr> severity = Nit, title = lit ''Typo'', rationale = lit ''Spelling'',
            suggestion = None, file = None, line = None \<rparr>"
  by (simp add: element_nit_def validateFinding_def severity_of_def lit_def)

text \<open>
  The theorem at an object whose findings array mixes the four elements, and at an
  object whose findings field is a string. The first and the last of the four elements
  are well formed and the theorem gives their findings; the two others are not.
\<close>

theorem validateAiResponse_findings_witness:
  "(\<exists>v. validateAiResponse
          (JObj [(lit ''summary'', JStr (lit ''Two issues'')),
                 (lit ''findings'',
                  JArr [element_high, element_no_rationale, element_critical, element_nit])])
        = Inr v
      \<and> v_findings v =
          [\<lparr> severity = High, title = lit ''Injection'', rationale = lit ''Input reaches eval'',
              suggestion = None, file = None, line = None \<rparr>,
           \<lparr> severity = Nit, title = lit ''Typo'', rationale = lit ''Spelling'',
              suggestion = None, file = None, line = None \<rparr>])
   \<and> (\<exists>v. validateAiResponse
          (JObj [(lit ''summary'', JStr (lit ''Fine'')), (lit ''findings'', JStr (lit ''none''))])
        = Inr v
      \<and> v_findings v = [])
   \<and> validateFinding element_no_rationale = None
   \<and> validateFinding element_critical = None
   \<and> well_formed_finding element_high
   \<and> (\<exists>x. validateFinding element_high = Some x \<and> severity x = High
          \<and> title x = lit ''Injection'' \<and> rationale x = lit ''Input reaches eval''
          \<and> suggestion x = None \<and> file x = None)
   \<and> well_formed_finding element_nit
   \<and> \<not> well_formed_finding element_no_rationale
   \<and> \<not> well_formed_finding element_critical"
proof -
  let ?p = "JObj [(lit ''summary'', JStr (lit ''Two issues'')),
                  (lit ''findings'',
                   JArr [element_high, element_no_rationale, element_critical, element_nit])]"
  let ?q = "JObj [(lit ''summary'', JStr (lit ''Fine'')), (lit ''findings'', JStr (lit ''none''))]"
  note t = validateAiResponse_findings
  have wh: "well_formed_finding element_high"
    by (simp add: well_formed_finding_def element_high_def lit_def)
  have wn: "well_formed_finding element_nit"
    by (simp add: well_formed_finding_def element_nit_def lit_def)
  have wr: "\<not> well_formed_finding element_no_rationale"
    by (simp add: well_formed_finding_def element_no_rationale_def lit_def)
  have wc: "\<not> well_formed_finding element_critical"
    by (simp add: well_formed_finding_def element_critical_def lit_def)
  note rejected = t [of ?p, THEN conjunct2, THEN conjunct2, THEN conjunct2, THEN conjunct1]
  note accepted = t [of ?p, THEN conjunct2, THEN conjunct2, THEN conjunct2, THEN conjunct2]
  from rejected wr have 3: "validateFinding element_no_rationale = None" by blast
  from rejected wc have 4: "validateFinding element_critical = None" by blast
  from accepted wh obtain x where x: "validateFinding element_high = Some x"
    "get_prop element_high (lit ''severity'') = Some (JStr (severity_name (severity x)))"
    "get_prop element_high (lit ''title'') = Some (JStr (title x))"
    "get_prop element_high (lit ''rationale'') = Some (JStr (rationale x))"
    "suggestion x = optional_string (get_prop element_high (lit ''suggestion''))"
    "file x = optional_string (get_prop element_high (lit ''file''))"
    by blast
  from x(2) have "severity_name (severity x) = lit ''high''"
    by (simp add: element_high_def lit_def)
  then have "severity_of (lit ''high'') = Some (severity x)"
    by (simp only: severity_of_name)
  then have x1: "severity x = High" by (simp add: severity_of_def)
  from x(3) have x2: "title x = lit ''Injection''" by (simp add: element_high_def lit_def)
  from x(4) have x3: "rationale x = lit ''Input reaches eval''"
    by (simp add: element_high_def lit_def)
  from x(5) have x4: "suggestion x = None"
    by (simp add: element_high_def lit_def optional_string_def)
  from x(6) have x5: "file x = None"
    by (simp add: element_high_def lit_def optional_string_def)
  have fp: "get_prop ?p (lit ''findings'')
              = Some (JArr [element_high, element_no_rationale, element_critical, element_nit])"
    by (simp add: lit_def)
  obtain v where v: "validateAiResponse ?p = Inr v"
    by (simp add: validateAiResponse_def lit_def)
  note kept = t [of ?p, THEN conjunct1, unfolded v sum.case, THEN conjunct2, THEN conjunct1]
  from kept have 1: "v_findings v =
          [\<lparr> severity = High, title = lit ''Injection'', rationale = lit ''Input reaches eval'',
              suggestion = None, file = None, line = None \<rparr>,
           \<lparr> severity = Nit, title = lit ''Typo'', rationale = lit ''Spelling'',
              suggestion = None, file = None, line = None \<rparr>]"
    by (simp only: fp elements.simps) (simp add: wh wn wr wc validate_element_high validate_element_nit)
  have fq: "\<not> isArray (get_prop ?q (lit ''findings''))"
    by (simp add: lit_def)
  obtain u where u: "validateAiResponse ?q = Inr u"
    by (simp add: validateAiResponse_def lit_def)
  note none = t [of ?q, THEN conjunct1, unfolded u sum.case, THEN conjunct2, THEN conjunct2]
  from none fq have 2: "v_findings u = []" by (rule mp)
  from x(1) x1 x2 x3 x4 x5 have 5: "\<exists>x. validateFinding element_high = Some x \<and> severity x = High
          \<and> title x = lit ''Injection'' \<and> rationale x = lit ''Input reaches eval''
          \<and> suggestion x = None \<and> file x = None"
    by blast
  from v 1 have a: "\<exists>v. validateAiResponse ?p = Inr v \<and> v_findings v =
          [\<lparr> severity = High, title = lit ''Injection'', rationale = lit ''Input reaches eval'',
              suggestion = None, file = None, line = None \<rparr>,
           \<lparr> severity = Nit, title = lit ''Typo'', rationale = lit ''Spelling'',
              suggestion = None, file = None, line = None \<rparr>]"
    by blast
  from u 2 have b: "\<exists>v. validateAiResponse ?q = Inr v \<and> v_findings v = []" by blast
  show ?thesis
    by (intro conjI a b 3 4 wh 5 wn wr wc)
qed

text \<open>
  Claim C7, as the code has it. A finding that survives validation carries a line
  exactly when the line of the element is a number that is an integer, and then it is
  that number. The line has no part in the admission: every well formed element is
  admitted, and the finding made of it is without a line exactly when the line of the
  element is not an integer number. The integer can be negative.
\<close>

theorem validateFinding_line_integer:
  "(validateFinding f = Some v \<longrightarrow>
     (case line v of
        Some n \<Rightarrow> get_prop f (lit ''line'') = Some (JNum n) \<and> (\<exists>z::int. n = Finite (of_int z))
      | None \<Rightarrow> \<not> (\<exists>z::int. get_prop f (lit ''line'') = Some (JNum (Finite (of_int z))))))
   \<and> (well_formed_finding f \<longrightarrow>
        (\<exists>x. validateFinding f = Some x
           \<and> (line x = None
                \<longleftrightarrow> \<not> (\<exists>z::int. get_prop f (lit ''line'') = Some (JNum (Finite (of_int z)))))))"
proof -
  let ?l = "get_prop f (lit ''line'')"
  have main: "case line v of
        Some n \<Rightarrow> ?l = Some (JNum n) \<and> (\<exists>z::int. n = Finite (of_int z))
      | None \<Rightarrow> \<not> (\<exists>z::int. ?l = Some (JNum (Finite (of_int z))))"
    if ok: "validateFinding f = Some v" for v
  proof -
    have l: "line v = (if typeof ?l = TNumber \<and> Number_isInteger (the_number ?l)
                       then Some (the_number ?l) else None)"
      using ok by (auto simp: validateFinding_def split: if_splits)
    show ?thesis
    proof (cases "typeof ?l = TNumber \<and> Number_isInteger (the_number ?l)")
      case True
      then have "?l = Some (JNum (the_number ?l))" by (simp add: typeof_number)
      moreover have "\<exists>z::int. the_number ?l = Finite (of_int z)"
        using True by (simp add: Number_isInteger_iff)
      ultimately show ?thesis using l True by simp
    next
      case False
      have "\<not> (\<exists>z::int. ?l = Some (JNum (Finite (of_int z))))"
      proof
        assume "\<exists>z::int. ?l = Some (JNum (Finite (of_int z)))"
        then obtain z :: int where z: "?l = Some (JNum (Finite (of_int z)))" ..
        then have "typeof ?l = TNumber" "the_number ?l = Finite (of_int z)" by simp_all
        then have "typeof ?l = TNumber \<and> Number_isInteger (the_number ?l)"
          by (simp add: Number_isInteger_iff)
        with False show False ..
      qed
      then show ?thesis using l False by simp
    qed
  qed
  have admitted: "\<exists>x. validateFinding f = Some x
           \<and> (line x = None \<longleftrightarrow> \<not> (\<exists>z::int. ?l = Some (JNum (Finite (of_int z)))))"
    if w: "well_formed_finding f"
  proof -
    from w have "validateFinding f \<noteq> None" by (simp only: validateFinding_accepts)
    then obtain x where x: "validateFinding f = Some x" by blast
    have eq: "line x = None \<longleftrightarrow> \<not> (\<exists>z::int. ?l = Some (JNum (Finite (of_int z))))"
    proof (cases "line x")
      case None
      with main [OF x] show ?thesis by simp
    next
      case (Some n)
      with main [OF x] have "?l = Some (JNum n)" and "\<exists>z::int. n = Finite (of_int z)"
        by simp_all
      then have "\<exists>z::int. ?l = Some (JNum (Finite (of_int z)))" by blast
      with Some show ?thesis by simp
    qed
    show ?thesis by (intro exI [where x = x] conjI x eq)
  qed
  show ?thesis
  proof (intro conjI impI)
    assume "validateFinding f = Some v"
    then show "case line v of
        Some n \<Rightarrow> ?l = Some (JNum n) \<and> (\<exists>z::int. n = Finite (of_int z))
      | None \<Rightarrow> \<not> (\<exists>z::int. ?l = Some (JNum (Finite (of_int z))))"
      by (rule main)
  next
    assume "well_formed_finding f"
    then show "\<exists>x. validateFinding f = Some x
           \<and> (line x = None \<longleftrightarrow> \<not> (\<exists>z::int. ?l = Some (JNum (Finite (of_int z)))))"
      by (rule admitted)
  qed
qed

lemma validate_element_line_int:
  "validateFinding (element_line (Finite (of_int z))) =
     Some \<lparr> severity = Low, title = lit ''Unused'', rationale = lit ''Dead code'',
            suggestion = None, file = Some (lit ''a.ts''), line = Some (Finite (of_int z)) \<rparr>"
  by (simp add: element_line_def validateFinding_def severity_of_def lit_def)

text \<open>
  The theorem at the element with the line \<open>12\<close>, which keeps its line, and at the
  element with the line \<open>3/2\<close>, which is well formed, and so admitted, and loses it.
\<close>

theorem validateFinding_line_integer_witness:
  "validateFinding (element_line (Finite 12)) =
     Some \<lparr> severity = Low, title = lit ''Unused'', rationale = lit ''Dead code'',
            suggestion = None, file = Some (lit ''a.ts''), line = Some (Finite 12) \<rparr>
   \<and> get_prop (element_line (Finite 12)) (lit ''line'') = Some (JNum (Finite 12))
   \<and> (\<exists>z::int. Finite 12 = Finite (of_int z))
   \<and> well_formed_finding (element_line (Finite (3 / 2)))
   \<and> (\<exists>x. validateFinding (element_line (Finite (3 / 2))) = Some x \<and> line x = None)"
proof -
  let ?v = "\<lparr> severity = Low, title = lit ''Unused'', rationale = lit ''Dead code'',
              suggestion = None, file = Some (lit ''a.ts''), line = Some (Finite 12) \<rparr>"
  let ?e = "element_line (Finite (3 / 2))"
  have v: "validateFinding (element_line (Finite 12)) = Some ?v"
    using validate_element_line_int [of 12] by simp
  from validateFinding_line_integer [of "element_line (Finite 12)" ?v] v
  have a: "get_prop (element_line (Finite 12)) (lit ''line'') = Some (JNum (Finite 12))
   \<and> (\<exists>z::int. Finite 12 = Finite (of_int z))"
    by simp
  have w: "well_formed_finding ?e"
    by (simp add: well_formed_finding_def element_line_def lit_def)
  have g: "get_prop ?e (lit ''line'') = Some (JNum (Finite (3 / 2)))"
    by (simp add: element_line_def lit_def)
  have n: "\<not> (\<exists>z::int. get_prop ?e (lit ''line'') = Some (JNum (Finite (of_int z))))"
  proof
    assume "\<exists>z::int. get_prop ?e (lit ''line'') = Some (JNum (Finite (of_int z)))"
    then obtain z :: int where "get_prop ?e (lit ''line'') = Some (JNum (Finite (of_int z)))" ..
    then have "Some (JNum (Finite (3 / 2))) = Some (JNum (Finite (of_int z)))"
      by (simp only: g)
    then have "(3 / 2 :: rat) = of_int z"
      by (simp only: option.inject json.inject number.inject)
    then have "(of_int z :: rat) = 3 / 2" by (rule sym)
    with not_int_three_halves [of z] show False ..
  qed
  note admitted = validateFinding_line_integer [of ?e ?v, THEN conjunct2, THEN mp, OF w]
  then obtain x where x: "validateFinding ?e = Some x"
    and l: "line x = None
          \<longleftrightarrow> \<not> (\<exists>z::int. get_prop ?e (lit ''line'') = Some (JNum (Finite (of_int z))))"
    by (elim exE conjE)
  from l n have "line x = None" by (rule iffD2)
  with x have b: "\<exists>x. validateFinding ?e = Some x \<and> line x = None"
    by (intro exI [where x = x] conjI)
  show ?thesis
    by (intro conjI v a [THEN conjunct1] a [THEN conjunct2] w b)
qed

text \<open>
  The claim as it was stated fails: the element with the line \<open>-5\<close> survives
  validation and carries that line, which is negative.
\<close>

theorem validateFinding_line_negative_counterexample:
  "validateFinding (element_line (Finite (- 5))) =
     Some \<lparr> severity = Low, title = lit ''Unused'', rationale = lit ''Dead code'',
            suggestion = None, file = Some (lit ''a.ts''), line = Some (Finite (- 5)) \<rparr>
   \<and> \<not> (0::rat) \<le> - 5"
  using validate_element_line_int [of "- 5"] by simp
section \<open>Properties of the handler\<close>

lemma reviewResponse_eq:
  "reviewResponse eng noise rq td v w =
     (\<lparr> status = 200,
         body = ReviewBody
           \<lparr> r_reviewId = uuid_source w (uuid_count w),
             r_summary = v_summary v,
             r_findings = filterNonsensicalFindings noise (v_findings v),
             r_commentMd =
               renderReviewMarkdown (Number_toString eng) (v_summary v)
                 (filterNonsensicalFindings noise (v_findings v)) (v_testingNotes v)
                 (deriveRecommendation (filterNonsensicalFindings noise (v_findings v)))
                 (req_sha rq),
             r_recommendation =
               deriveRecommendation (filterNonsensicalFindings noise (v_findings v)),
             r_meta = metaOf rq td \<rparr> \<rparr>,
      w\<lparr>uuid_count := Suc (uuid_count w)\<rparr>)"
  by (simp add: reviewResponse_def randomUUID_def jsonResponse_def Let_def)

lemma trivialResponse_eq:
  "trivialResponse eng rq td w =
     (\<lparr> status = 200,
         body = ReviewBody
           \<lparr> r_reviewId = uuid_source w (uuid_count w),
             r_summary = trivialSummary,
             r_findings = [],
             r_commentMd =
               renderReviewMarkdown (Number_toString eng) trivialSummary [] [] Approve (req_sha rq),
             r_recommendation = Approve,
             r_meta = metaOf rq td \<rparr> \<rparr>,
      w\<lparr>uuid_count := Suc (uuid_count w)\<rparr>)"
  by (simp add: trivialResponse_def randomUUID_def jsonResponse_def Let_def)

lemma inferText_eq:
  "inferText eng c w =
     ((case ai_answers w (length (ai_calls w)) of
         Throws m \<Rightarrow> Inl (Thrown m)
       | Returns a \<Rightarrow> getAiResponseText eng a),
      w\<lparr>ai_calls := ai_calls w @ [\<lparr> system_content = SYSTEM_PROMPT, user_content = c \<rparr>]\<rparr>)"
  by (simp add: inferText_def AI_run_def)

lemma retryAttempt_eq:
  "retryAttempt eng p w =
     ((case (case ai_answers w (length (ai_calls w)) of
               Throws m \<Rightarrow> Inl (Thrown m)
             | Returns a \<Rightarrow> getAiResponseText eng a) of
         Inl e \<Rightarrow> Inl e
       | Inr t \<Rightarrow> parseAndValidate eng t),
      w\<lparr>ai_calls := ai_calls w
           @ [\<lparr> system_content = SYSTEM_PROMPT, user_content = p @ retrySuffix \<rparr>]\<rparr>)"
  by (simp add: retryAttempt_def inferText_eq)

lemma handleReview_accepted:
  assumes "authorization request = Some h" "h \<noteq> []" "startsWith h (lit ''Bearer '')"
    and "slice_from h 7 = AUTH_TOKEN env"
    and "JSON_parse eng (body_text request) = Inr reqBody"
    and "typeof (Some reqBody) = TObject" "reqBody \<noteq> JNull"
    and "get_prop reqBody (lit ''diff'') = Some (JStr d)" "trim d \<noteq> []"
  shows "handleReview eng noise request env w = reviewDiff eng noise (reviewRequest reqBody) w"
  using assms by (simp add: handleReview_def)

lemma reviewRequest_diff:
  "get_prop reqBody (lit ''diff'') = Some (JStr d) \<Longrightarrow> req_diff (reviewRequest reqBody) = d"
  by (simp add: reviewRequest_def)

lemma recommendation_of_response:
  "handleReview eng noise request env w = (resp, w') \<Longrightarrow> body resp = ReviewBody r \<Longrightarrow>
   r_recommendation r = deriveRecommendation (r_findings r)"
  by (auto simp: handleReview_def reviewDiff_def errorResponse_def jsonResponse_def
      reviewResponse_eq trivialResponse_eq inferText_eq retryAttempt_eq deriveRecommendation_def
      Let_def split: if_splits sum.splits prod.splits)

lemma findings_of_response:
  assumes run: "handleReview eng noise request env w = (resp, w')" "body resp = ReviewBody r"
  shows "\<exists>validated. r_findings r = filterNonsensicalFindings noise validated"
proof -
  define filtered where
    "filtered fs \<longleftrightarrow> (\<exists>validated. fs = filterNonsensicalFindings noise validated)" for fs
  have nil: "filtered []"
    unfolding filtered_def by (rule exI [of _ "[]"]) (simp add: filterNonsensicalFindings_def)
  have any: "filtered (filterNonsensicalFindings noise xs)" for xs
    unfolding filtered_def by (rule exI [of _ xs]) simp
  from run have "filtered (r_findings r)"
    by (auto simp: handleReview_def reviewDiff_def errorResponse_def jsonResponse_def
        reviewResponse_eq trivialResponse_eq inferText_eq retryAttempt_eq nil any
        Let_def split: if_splits sum.splits prod.splits)
  then show ?thesis by (simp add: filtered_def)
qed

lemma truncated_of_reviewDiff:
  "reviewDiff eng noise rq w = (resp, w') \<Longrightarrow> body resp = ReviewBody r \<Longrightarrow>
   m_truncatedDiff (r_meta r) = snd (truncateDiff (req_diff rq))"
  by (auto simp: reviewDiff_def errorResponse_def jsonResponse_def metaOf_def
      reviewResponse_eq trivialResponse_eq inferText_eq retryAttempt_eq Let_def
      split: if_splits sum.splits prod.splits)

text \<open>The run of the handler when the first reply cannot be used.\<close>

lemma reviewDiff_retry:
  assumes nontrivial: "\<not> isTrivialDiff (fst (truncateDiff (req_diff rq)))"
    and first: "ai_answers w (length (ai_calls w)) = Returns a1"
      "getAiResponseText eng a1 = Inr t1" "parseAndValidate eng t1 = Inl e1"
  shows "reviewDiff eng noise rq w =
     (let kept = fst (truncateDiff (req_diff rq));
          truncatedDiff = snd (truncateDiff (req_diff rq));
          reviewReq = rq\<lparr>req_diff := kept\<rparr>;
          prompt = buildUserPrompt reviewReq truncatedDiff @ strictSuffix;
          w1 = w\<lparr>ai_calls := ai_calls w
                 @ [\<lparr> system_content = SYSTEM_PROMPT, user_content = prompt \<rparr>]\<rparr>;
          w2 = w\<lparr>ai_calls := ai_calls w
                 @ [\<lparr> system_content = SYSTEM_PROMPT, user_content = prompt \<rparr>,
                    \<lparr> system_content = SYSTEM_PROMPT, user_content = prompt @ retrySuffix \<rparr>]\<rparr>
      in case (case ai_answers w (Suc (length (ai_calls w))) of
                 Throws m \<Rightarrow> Inl (Thrown m)
               | Returns a2 \<Rightarrow>
                   (case getAiResponseText eng a2 of
                      Inl e \<Rightarrow> Inl e
                    | Inr t2 \<Rightarrow> parseAndValidate eng t2)) of
           Inl e2 \<Rightarrow>
             (errorResponse
                (lit ''AI response parsing failed: ''
                 @ error_message e2 (lit ''Failed to parse AI response'')) 500, w2)
         | Inr v \<Rightarrow> reviewResponse eng noise reviewReq truncatedDiff v w2)"
  using assms
  by (auto simp: reviewDiff_def inferText_eq retryAttempt_eq Let_def
      split: prod.splits sum.splits AiOutcome.splits)

lemma handleReview_index_accepted:
  assumes "authorization request = Some h" "h \<noteq> []" "startsWith h (lit ''Bearer '')"
    and "slice_from h 7 = AUTH_TOKEN env"
    and "JSON_parse eng (body_text request) = Inr reqBody"
    and "typeof (Some reqBody) = TObject" "reqBody \<noteq> JNull"
    and "get_prop reqBody (lit ''diff'') = Some (JStr d)" "trim d \<noteq> []"
  shows "handleReview_index eng request env w = reviewDiff_index eng (reviewRequest reqBody) w"
  using assms by (simp add: handleReview_index_def)

lemma truncated_of_reviewDiff_index:
  "reviewDiff_index eng rq w = (resp, w') \<Longrightarrow> body resp = ReviewBody r \<Longrightarrow>
   m_truncatedDiff (i_meta r) = snd (truncateDiff (req_diff rq))"
  by (auto simp: reviewDiff_index_def errorResponse_def jsonResponse_def metaOf_def
      AI_run_def randomUUID_def Let_def split: if_splits sum.splits prod.splits)

section \<open>The example run\<close>

lemma example_authorization: "authorization example_request = Some (lit ''Bearer s3cret'')"
  by (simp add: example_request_def)

lemma bearer_nonempty: "lit ''Bearer s3cret'' \<noteq> []"
  by (simp add: lit_def)

lemma bearer_prefix: "startsWith (lit ''Bearer s3cret'') (lit ''Bearer '')"
  by (simp add: startsWith_def lit_def)

lemma bearer_token: "slice_from (lit ''Bearer s3cret'') 7 = AUTH_TOKEN example_env"
  by (simp add: slice_from_def slice_index_def example_env_def lit_def)

lemma example_body: "JSON_parse example_engine (body_text example_request) = Inr request_value"
  by (simp add: example_engine_def example_request_def)

lemma example_body_object: "typeof (Some request_value) = TObject"
  by (simp add: request_value_def)

lemma example_body_not_null: "request_value \<noteq> JNull"
  by (simp add: request_value_def)

lemma example_body_diff:
  "get_prop request_value (lit ''diff'') = Some (JStr (lit ''+x = eval(input)''))"
  by (simp add: request_value_def)

lemma example_diff_not_blank: "trim (lit ''+x = eval(input)'') \<noteq> []"
  by (simp add: trim_def lit_def isWhiteSpace_def)

lemmas example_checks =
  example_authorization bearer_nonempty bearer_prefix bearer_token example_body
  example_body_object example_body_not_null example_body_diff example_diff_not_blank

lemma example_accepted:
  "handleReview example_engine noise example_request example_env w =
     reviewDiff example_engine noise (reviewRequest request_value) w"
  by (rule handleReview_accepted [OF example_checks])

lemma example_diff: "req_diff (reviewRequest request_value) = lit ''+x = eval(input)''"
  by (simp add: reviewRequest_def request_value_def)

lemma example_truncate: "truncateDiff (lit ''+x = eval(input)'') = (lit ''+x = eval(input)'', False)"
  by (simp add: truncateDiff_def MAX_DIFF_LENGTH_def lit_def)

lemma example_nontrivial: "\<not> isTrivialDiff (lit ''+x = eval(input)'')"
  by (simp add: isTrivialDiff_def substantive_def lit_def startsWith_def slice_from_def
      slice_index_def trim_def isWhiteSpace_def allWhiteSpace_def)

lemma example_chatter_text:
  "getAiResponseText example_engine (Some chatter) = Inr (lit ''I found two issues in this change.'')"
  by (simp add: getAiResponseText_def chatter_def example_engine_def)

lemma example_chatter_fails:
  "parseAndValidate example_engine (lit ''I found two issues in this change.'') = Inl NoJsonFound"
proof -
  have "lbrace \<notin> set (lit ''I found two issues in this change.'')"
    by (simp add: lit_def lbrace_def)
  then show ?thesis by (simp add: parseAndValidate_def extractJson_no_lbrace)
qed

lemma example_good_text:
  "getAiResponseText example_engine (Some good_reply)
     = Inr (lit ''Here is the review: '' @ review_text @ lit '' Done.'')"
  by (simp add: getAiResponseText_def good_reply_def example_engine_def)

lemma review_text_not_request: "review_text \<noteq> request_text"
  by (simp add: review_text_def request_text_def review_inner_def lit_def lbrace_def)

lemma example_extract:
  "extractJson (JSON_parse example_engine) (lit ''Here is the review: '' @ review_text @ lit '' Done.'')
     = Inr review_value"
proof -
  have "extractJson (JSON_parse example_engine)
          (lit ''Here is the review: '' @ lbrace # review_inner @ rbrace # lit '' Done.'')
        = (case JSON_parse example_engine (lbrace # review_inner @ [rbrace]) of
             Inl m \<Rightarrow> Inl (MalformedJson m) | Inr v \<Rightarrow> Inr v)"
    by (rule extractJson_span [where pre = "lit ''Here is the review: ''" and post = "lit '' Done.''"])
       (simp_all add: lit_def lbrace_def rbrace_def)
  moreover have "JSON_parse example_engine (lbrace # review_inner @ [rbrace]) = Inr review_value"
    using review_text_not_request by (simp add: example_engine_def review_text_def)
  ultimately show ?thesis by (simp add: review_text_def)
qed

lemma validate_element_no_rationale: "validateFinding element_no_rationale = None"
  by (rule validateFinding_missing_rationale) (simp add: element_no_rationale_def lit_def)

lemma validate_element_critical: "validateFinding element_critical = None"
  by (rule validateFinding_bad_severity)
     (simp add: element_critical_def severity_of_def lit_def)

lemma validate_review_value:
  "validateAiResponse review_value =
     Inr \<lparr> v_summary = lit ''Two issues'', v_findings = [finding_high, finding_nit], v_testingNotes = [] \<rparr>"
proof -
  have f: "get_prop review_value (lit ''findings'')
            = Some (JArr [element_high, element_no_rationale, element_critical, element_nit])"
    by (simp add: review_value_def lit_def)
  have s: "get_prop review_value (lit ''summary'') = Some (JStr (lit ''Two issues''))"
    by (simp add: review_value_def)
  have t: "get_prop review_value (lit ''testingNotes'') = None"
    by (simp add: review_value_def lit_def)
  have o: "typeof (Some review_value) = TObject" "review_value \<noteq> JNull"
    by (simp_all add: review_value_def)
  show ?thesis
    by (simp add: validateAiResponse_def f s t o validate_element_high validate_element_nit
        validate_element_no_rationale validate_element_critical finding_high_def finding_nit_def)
qed

lemma example_good_validates:
  "parseAndValidate example_engine (lit ''Here is the review: '' @ review_text @ lit '' Done.'')
     = Inr \<lparr> v_summary = lit ''Two issues'', v_findings = [finding_high, finding_nit], v_testingNotes = [] \<rparr>"
  by (simp add: parseAndValidate_def example_extract validate_review_value)

lemma example_request_unchanged:
  "(reviewRequest request_value)\<lparr>req_diff := lit ''+x = eval(input)''\<rparr> = reviewRequest request_value"
  by (simp add: reviewRequest_def request_value_def)

lemma example_run_succeeds:
  "handleReview example_engine noise example_request example_env world_retry_succeeds =
     reviewResponse example_engine noise (reviewRequest request_value) False
       \<lparr> v_summary = lit ''Two issues'', v_findings = [finding_high, finding_nit],
         v_testingNotes = [] \<rparr>
       (world_retry_succeeds
          \<lparr>ai_calls :=
             [\<lparr> system_content = SYSTEM_PROMPT, user_content = example_prompt \<rparr>,
              \<lparr> system_content = SYSTEM_PROMPT, user_content = example_prompt @ retrySuffix \<rparr>]\<rparr>)"
proof -
  have a0: "ai_answers world_retry_succeeds (length (ai_calls world_retry_succeeds))
              = Returns (Some chatter)"
    by (simp add: world_retry_succeeds_def)
  have a1: "ai_answers world_retry_succeeds (Suc 0) = Returns (Some good_reply)"
    by (simp add: world_retry_succeeds_def)
  have c: "ai_calls world_retry_succeeds = []"
    by (simp add: world_retry_succeeds_def)
  have n: "\<not> isTrivialDiff (fst (truncateDiff (req_diff (reviewRequest request_value))))"
    by (simp add: example_diff example_truncate example_nontrivial)
  show ?thesis
    unfolding example_accepted
    by (simp add: reviewDiff_retry [OF n a0 example_chatter_text example_chatter_fails] a1 c
        example_good_text example_good_validates example_diff example_truncate
        example_request_unchanged example_prompt_def Let_def)
qed

lemma example_run_fails:
  "handleReview example_engine noise example_request example_env world_retry_fails =
     (errorResponse
        (lit ''AI response parsing failed: '' @ lit ''No JSON object found in response'') 500,
      world_retry_fails
        \<lparr>ai_calls :=
           [\<lparr> system_content = SYSTEM_PROMPT, user_content = example_prompt \<rparr>,
            \<lparr> system_content = SYSTEM_PROMPT, user_content = example_prompt @ retrySuffix \<rparr>]\<rparr>)"
proof -
  have a0: "ai_answers world_retry_fails (length (ai_calls world_retry_fails))
              = Returns (Some chatter)"
    by (simp add: world_retry_fails_def)
  have a1: "ai_answers world_retry_fails (Suc 0) = Returns (Some chatter)"
    by (simp add: world_retry_fails_def)
  have c: "ai_calls world_retry_fails = []"
    by (simp add: world_retry_fails_def)
  have n: "\<not> isTrivialDiff (fst (truncateDiff (req_diff (reviewRequest request_value))))"
    by (simp add: example_diff example_truncate example_nontrivial)
  show ?thesis
    unfolding example_accepted
    by (simp add: reviewDiff_retry [OF n a0 example_chatter_text example_chatter_fails] a1 c
        example_chatter_text example_chatter_fails example_diff example_truncate
        example_request_unchanged example_prompt_def Let_def)
qed

lemma filter_no_noise: "filterNonsensicalFindings (\<lambda>f. False) fs = fs"
  by (simp add: filterNonsensicalFindings_def)

lemma derive_high_nit: "deriveRecommendation [finding_high, finding_nit] = RequestChanges"
  by (simp add: deriveRecommendation_def finding_high_def)

lemma example_index_accepted:
  "handleReview_index example_engine example_request example_env w =
     reviewDiff_index example_engine (reviewRequest request_value) w"
  by (rule handleReview_index_accepted [OF example_checks])

lemma example_good_text_index:
  "responseText_index example_engine (Some good_reply)
     = Inr (lit ''Here is the review: '' @ review_text @ lit '' Done.'')"
  by (simp add: responseText_index_def good_reply_def example_engine_def)

lemma validate_review_value_index:
  "validateAiResponse_index review_value =
     Inr \<lparr> vi_summary = lit ''Two issues'', vi_findings = [finding_high, finding_nit] \<rparr>"
proof -
  have f: "get_prop review_value (lit ''findings'')
            = Some (JArr [element_high, element_no_rationale, element_critical, element_nit])"
    by (simp add: review_value_def lit_def)
  have s: "get_prop review_value (lit ''summary'') = Some (JStr (lit ''Two issues''))"
    by (simp add: review_value_def)
  have o: "typeof (Some review_value) = TObject" "review_value \<noteq> JNull"
    by (simp_all add: review_value_def)
  show ?thesis
    by (simp add: validateAiResponse_index_def f s o validate_element_high validate_element_nit
        validate_element_no_rationale validate_element_critical finding_high_def finding_nit_def)
qed

lemma example_run_index:
  "handleReview_index example_engine example_request example_env world_reply_good =
     (\<lparr> status = 200,
         body = ReviewBody
           \<lparr> i_reviewId = lit ''00000000-0000-4000-8000-000000000000'',
             i_summary = lit ''Two issues'',
             i_findings = [finding_high, finding_nit],
             i_meta = metaOf (reviewRequest request_value) False \<rparr> \<rparr>,
      world_reply_good
        \<lparr>ai_calls :=
           [\<lparr> system_content = SYSTEM_PROMPT_index,
               user_content = buildUserPrompt (reviewRequest request_value) False \<rparr>],
         uuid_count := Suc 0\<rparr>)"
proof -
  have a: "ai_answers world_reply_good 0 = Returns (Some good_reply)"
    by (simp add: world_reply_good_def)
  have c: "ai_calls world_reply_good = []" "uuid_count world_reply_good = 0"
    "uuid_source world_reply_good 0 = lit ''00000000-0000-4000-8000-000000000000''"
    by (simp_all add: world_reply_good_def)
  show ?thesis
    unfolding example_index_accepted
    by (simp add: reviewDiff_index_def AI_run_def randomUUID_def jsonResponse_def a c
        example_diff example_truncate example_request_unchanged example_good_text_index
        example_extract validate_review_value_index Let_def)
qed

section \<open>Claims about the recommendation\<close>

lemma severity_in_image:
  "(\<exists>f\<in>set fs. severity f = s) \<longleftrightarrow> s \<in> severity ` set fs"
  by (simp add: image_iff eq_commute)

lemma deriveRecommendation_set:
  "deriveRecommendation fs =
     (if \<exists>f\<in>set fs. severity f = High then RequestChanges
      else if \<exists>f\<in>set fs. severity f = Medium then ApproveWithChanges
      else Approve)"
  by (simp add: deriveRecommendation_def list_ex_iff)

lemma deriveRecommendation_same_severities:
  "severity ` set fs = severity ` set gs \<Longrightarrow> deriveRecommendation fs = deriveRecommendation gs"
  by (simp add: deriveRecommendation_set severity_in_image)

lemma deriveRecommendation_low_nit:
  "deriveRecommendation (filter (\<lambda>f. severity f \<noteq> Low \<and> severity f \<noteq> Nit) fs)
     = deriveRecommendation fs"
  by (auto simp: deriveRecommendation_def list_ex_iff)

text \<open>
  Claim C3. The recommendation is a function of the severities of the filtered
  findings: request changes when one is high, else approve with changes when one is
  medium, else approve, the empty list included. Two lists with the same severities
  have the same recommendation, and removing the low and nit findings does not change
  it. In every review response of the handler the recommendation is the one derived
  from the findings of that response, which are the findings that passed the filter.
\<close>

theorem deriveRecommendation_by_severity:
  "deriveRecommendation fs =
     (if \<exists>f\<in>set fs. severity f = High then RequestChanges
      else if \<exists>f\<in>set fs. severity f = Medium then ApproveWithChanges
      else Approve)
   \<and> (severity ` set fs = severity ` set gs
        \<longrightarrow> deriveRecommendation fs = deriveRecommendation gs)
   \<and> deriveRecommendation (filter (\<lambda>f. severity f \<noteq> Low \<and> severity f \<noteq> Nit) fs)
       = deriveRecommendation fs
   \<and> deriveRecommendation [] = Approve
   \<and> (handleReview eng noise request env w = (resp, w') \<and> body resp = ReviewBody r
        \<longrightarrow> r_recommendation r = deriveRecommendation (r_findings r)
            \<and> (\<exists>validated. r_findings r = filterNonsensicalFindings noise validated))"
proof (intro conjI impI)
  show "deriveRecommendation fs =
     (if \<exists>f\<in>set fs. severity f = High then RequestChanges
      else if \<exists>f\<in>set fs. severity f = Medium then ApproveWithChanges
      else Approve)"
    by (rule deriveRecommendation_set)
  show "deriveRecommendation fs = deriveRecommendation gs"
    if "severity ` set fs = severity ` set gs"
    using that by (rule deriveRecommendation_same_severities)
  show "deriveRecommendation (filter (\<lambda>f. severity f \<noteq> Low \<and> severity f \<noteq> Nit) fs)
       = deriveRecommendation fs"
    by (rule deriveRecommendation_low_nit)
  show "deriveRecommendation [] = Approve"
    by (simp add: deriveRecommendation_def)
  show "r_recommendation r = deriveRecommendation (r_findings r)"
    if "handleReview eng noise request env w = (resp, w') \<and> body resp = ReviewBody r"
    using that recommendation_of_response by blast
  show "\<exists>validated. r_findings r = filterNonsensicalFindings noise validated"
    if "handleReview eng noise request env w = (resp, w') \<and> body resp = ReviewBody r"
    using that findings_of_response by blast
qed

text \<open>
  The theorem at the lists of the specification's examples and at the run of the
  handler in which the second reply holds a high and a nit finding.
\<close>

theorem deriveRecommendation_by_severity_witness:
  "deriveRecommendation [finding_medium] = ApproveWithChanges
   \<and> deriveRecommendation [finding_high, finding_medium] = RequestChanges
   \<and> deriveRecommendation [finding_low, finding_nit] = Approve
   \<and> deriveRecommendation [finding_nit, finding_medium, finding_low]
       = deriveRecommendation [finding_medium]
   \<and> (\<exists>r. body (fst (handleReview example_engine (\<lambda>f. False) example_request example_env
                        world_retry_succeeds)) = ReviewBody r
          \<and> r_findings r = [finding_high, finding_nit]
          \<and> r_recommendation r = RequestChanges)"
proof -
  note t = deriveRecommendation_by_severity
  have 1: "deriveRecommendation [finding_medium] = ApproveWithChanges"
    using t [of "[finding_medium]"] by (simp add: finding_medium_def)
  have 2: "deriveRecommendation [finding_high, finding_medium] = RequestChanges"
    using t [of "[finding_high, finding_medium]"] by (simp add: finding_high_def)
  have 3: "deriveRecommendation [finding_low, finding_nit] = Approve"
    using t [of "[finding_low, finding_nit]"] by (simp add: finding_low_def finding_nit_def)
  have 4: "deriveRecommendation [finding_nit, finding_medium, finding_low]
             = deriveRecommendation [finding_medium]"
    using t [of "[finding_nit, finding_medium, finding_low]"]
    by (simp add: finding_nit_def finding_medium_def finding_low_def)
  let ?run = "handleReview example_engine (\<lambda>f. False) example_request example_env
                world_retry_succeeds"
  obtain resp w' where run: "?run = (resp, w')" by (cases ?run)
  then obtain r where r: "body resp = ReviewBody r" "r_findings r = [finding_high, finding_nit]"
    by (auto simp: example_run_succeeds reviewResponse_eq filter_no_noise)
  from t [of _ _ example_engine "\<lambda>f. False" example_request example_env world_retry_succeeds
           resp w' r] run r
  have "r_recommendation r = deriveRecommendation [finding_high, finding_nit]" by simp
  then have "r_recommendation r = RequestChanges" by (simp add: derive_high_nit)
  with run r have 5: "\<exists>r. body (fst ?run) = ReviewBody r
          \<and> r_findings r = [finding_high, finding_nit] \<and> r_recommendation r = RequestChanges"
    by auto
  from 1 2 3 4 5 show ?thesis by (intro conjI)
qed

section \<open>Claims about the diff pre-processor\<close>

lemma truncateDiff_short: "length d \<le> MAX_DIFF_LENGTH \<Longrightarrow> truncateDiff d = (d, False)"
  by (simp add: truncateDiff_def)

lemma truncateDiff_long:
  "MAX_DIFF_LENGTH < length d \<Longrightarrow> truncateDiff d = (take MAX_DIFF_LENGTH d, True)"
  by (simp add: truncateDiff_def slice_def slice_index_def)

lemma truncated_of_response:
  assumes "JSON_parse eng (body_text request) = Inr reqBody"
    and "get_prop reqBody (lit ''diff'') = Some (JStr d)"
    and "handleReview eng noise request env w = (resp, w')"
    and "body resp = ReviewBody r"
  shows "m_truncatedDiff (r_meta r) = (MAX_DIFF_LENGTH < length d)"
proof -
  have "handleReview eng noise request env w = reviewDiff eng noise (reviewRequest reqBody) w"
    using assms
    by (auto simp: handleReview_def errorResponse_def jsonResponse_def split: if_splits)
  with assms have "m_truncatedDiff (r_meta r) = snd (truncateDiff (req_diff (reviewRequest reqBody)))"
    by (simp add: truncated_of_reviewDiff)
  then show ?thesis
    using assms by (simp add: reviewRequest_diff truncateDiff_def)
qed

lemma truncated_of_response_index:
  assumes "JSON_parse eng (body_text request) = Inr reqBody"
    and "get_prop reqBody (lit ''diff'') = Some (JStr d)"
    and "handleReview_index eng request env w = (resp, w')"
    and "body resp = ReviewBody r"
  shows "m_truncatedDiff (i_meta r) = (MAX_DIFF_LENGTH < length d)"
proof -
  have "handleReview_index eng request env w = reviewDiff_index eng (reviewRequest reqBody) w"
    using assms
    by (auto simp: handleReview_index_def errorResponse_def jsonResponse_def split: if_splits)
  with assms
  have "m_truncatedDiff (i_meta r) = snd (truncateDiff (req_diff (reviewRequest reqBody)))"
    by (simp add: truncated_of_reviewDiff_index)
  then show ?thesis
    using assms by (simp add: reviewRequest_diff truncateDiff_def)
qed

text \<open>
  Claim C4. A diff of at most 60,000 code units is kept as it is and the flag is
  false; of a longer diff exactly the first 60,000 code units are kept and the flag is
  true. The flag \<^verbatim>\<open>truncatedDiff\<close> in the meta data of every review response says
  whether the diff of the request was longer than the bound, in the handler of the
  variant with the retry and in the handler of \<^verbatim>\<open>src/index.ts\<close>.
\<close>

theorem truncateDiff_bound:
  "(length d \<le> MAX_DIFF_LENGTH \<longrightarrow> truncateDiff d = (d, False))
   \<and> (MAX_DIFF_LENGTH < length d \<longrightarrow>
        truncateDiff d = (take MAX_DIFF_LENGTH d, True)
        \<and> length (fst (truncateDiff d)) = MAX_DIFF_LENGTH)
   \<and> MAX_DIFF_LENGTH = 60000
   \<and> (JSON_parse eng (body_text request) = Inr reqBody
        \<and> get_prop reqBody (lit ''diff'') = Some (JStr d)
        \<and> handleReview eng noise request env w = (resp, w')
        \<and> body resp = ReviewBody r
        \<longrightarrow> m_truncatedDiff (r_meta r) = (60000 < length d))
   \<and> (JSON_parse eng (body_text request) = Inr reqBody
        \<and> get_prop reqBody (lit ''diff'') = Some (JStr d)
        \<and> handleReview_index eng request env w = (resp_i, w_i)
        \<and> body resp_i = ReviewBody r_i
        \<longrightarrow> m_truncatedDiff (i_meta r_i) = (60000 < length d))"
proof (intro conjI impI)
  show "truncateDiff d = (d, False)" if "length d \<le> MAX_DIFF_LENGTH"
    using that by (rule truncateDiff_short)
  show "truncateDiff d = (take MAX_DIFF_LENGTH d, True)" if "MAX_DIFF_LENGTH < length d"
    using that by (rule truncateDiff_long)
  show "length (fst (truncateDiff d)) = MAX_DIFF_LENGTH" if "MAX_DIFF_LENGTH < length d"
    using that by (simp add: truncateDiff_long)
  show "MAX_DIFF_LENGTH = 60000" by (simp add: MAX_DIFF_LENGTH_def)
  show "m_truncatedDiff (r_meta r) = (60000 < length d)"
    if "JSON_parse eng (body_text request) = Inr reqBody
        \<and> get_prop reqBody (lit ''diff'') = Some (JStr d)
        \<and> handleReview eng noise request env w = (resp, w')
        \<and> body resp = ReviewBody r"
    using that truncated_of_response [of eng request reqBody d noise env w resp w' r]
    by (simp add: MAX_DIFF_LENGTH_def)
  show "m_truncatedDiff (i_meta r_i) = (60000 < length d)"
    if "JSON_parse eng (body_text request) = Inr reqBody
        \<and> get_prop reqBody (lit ''diff'') = Some (JStr d)
        \<and> handleReview_index eng request env w = (resp_i, w_i)
        \<and> body resp_i = ReviewBody r_i"
    using that truncated_of_response_index [of eng request reqBody d env w resp_i w_i r_i]
    by (simp add: MAX_DIFF_LENGTH_def)
qed

text \<open>
  The theorem at the diff of the example request, at a diff of 60,001 code units, and
  at the run of the handler on the example request.
\<close>

theorem truncateDiff_bound_witness:
  "truncateDiff (lit ''+x = eval(input)'') = (lit ''+x = eval(input)'', False)
   \<and> truncateDiff (replicate 60001 120) = (replicate 60000 120, True)
   \<and> length (fst (truncateDiff (replicate 60001 120))) = 60000
   \<and> (\<exists>r. body (fst (handleReview example_engine (\<lambda>f. False) example_request example_env
                        world_retry_succeeds)) = ReviewBody r
          \<and> m_truncatedDiff (r_meta r) = False)
   \<and> (\<exists>r. body (fst (handleReview_index example_engine example_request example_env
                        world_reply_good)) = ReviewBody r
          \<and> m_truncatedDiff (i_meta r) = False)"
proof -
  note t = truncateDiff_bound
  have 1: "truncateDiff (lit ''+x = eval(input)'') = (lit ''+x = eval(input)'', False)"
    using t [of "lit ''+x = eval(input)''"] by (simp add: lit_def MAX_DIFF_LENGTH_def)
  have 2: "truncateDiff (replicate 60001 120) = (replicate 60000 120, True)
           \<and> length (fst (truncateDiff (replicate 60001 120))) = 60000"
    using t [of "replicate 60001 120"] by (simp add: MAX_DIFF_LENGTH_def)
  let ?run = "handleReview example_engine (\<lambda>f. False) example_request example_env
                world_retry_succeeds"
  obtain resp w' where run: "?run = (resp, w')" by (cases ?run)
  then obtain r where r: "body resp = ReviewBody r"
    by (auto simp: example_run_succeeds reviewResponse_eq)
  have p: "JSON_parse example_engine (body_text example_request) = Inr request_value"
    by (simp add: example_engine_def example_request_def)
  have d: "get_prop request_value (lit ''diff'') = Some (JStr (lit ''+x = eval(input)''))"
    by (simp add: request_value_def)
  from t [of "lit ''+x = eval(input)''" example_engine example_request request_value
           "\<lambda>f. False" example_env world_retry_succeeds resp w' r] p d run r
  have "m_truncatedDiff (r_meta r) = False" by (simp add: lit_def)
  with run r have 3: "\<exists>r. body (fst ?run) = ReviewBody r \<and> m_truncatedDiff (r_meta r) = False"
    by auto
  let ?run_i = "handleReview_index example_engine example_request example_env world_reply_good"
  obtain resp_i w_i where run_i: "?run_i = (resp_i, w_i)" by (cases ?run_i)
  then obtain r_i where r_i: "body resp_i = ReviewBody r_i"
    by (auto simp: example_run_index)
  from t [where d = "lit ''+x = eval(input)''" and eng = example_engine
           and request = example_request and reqBody = request_value and env = example_env
           and w = world_reply_good and resp_i = resp_i and w_i = w_i and r_i = r_i]
    p d run_i r_i
  have "m_truncatedDiff (i_meta r_i) = False" by (simp add: lit_def)
  with run_i r_i
  have 4: "\<exists>r. body (fst ?run_i) = ReviewBody r \<and> m_truncatedDiff (i_meta r) = False"
    by auto
  from 1 2 3 4 show ?thesis by (intro conjI) simp_all
qed

section \<open>Claims about the handler\<close>

lemma dropWhile_all: "list_all P xs \<Longrightarrow> dropWhile P xs = []"
  by (induction xs) auto

lemma trim_blank: "list_all isWhiteSpace d \<Longrightarrow> trim d = []"
  by (simp add: trim_def dropWhile_all)

text \<open>
  Claim C10. A request that passes the authorization and whose body is an object with
  a diff that is a string of white space only is answered with status 400 and the
  error of a missing or empty diff. The world is returned as it was: no inference call
  is made. This holds of the handler of the variant with the retry and of the handler of
  \<^verbatim>\<open>src/index.ts\<close>.
\<close>

theorem blank_diff_rejected:
  assumes "authorization request = Some h" "h \<noteq> []" "startsWith h (lit ''Bearer '')"
    and "slice_from h 7 = AUTH_TOKEN env"
    and "JSON_parse eng (body_text request) = Inr reqBody"
    and "typeof (Some reqBody) = TObject" "reqBody \<noteq> JNull"
    and "get_prop reqBody (lit ''diff'') = Some (JStr d)"
    and "list_all isWhiteSpace d"
  shows "handleReview eng noise request env w =
           (\<lparr> status = 400,
               body = ErrorBody
                 (lit ''Missing or empty '' @ [39] @ lit ''diff'' @ [39] @ lit '' field'') \<rparr>, w)
         \<and> handleReview_index eng request env w =
           (\<lparr> status = 400,
               body = ErrorBody
                 (lit ''Missing or empty '' @ [39] @ lit ''diff'' @ [39] @ lit '' field'') \<rparr>, w)"
  using assms
  by (simp add: handleReview_def handleReview_index_def trim_blank errorResponse_def
      jsonResponse_def)

text \<open>
  The theorem at a request whose diff is three spaces, a tabulator, a line feed and a
  space, in a world that has seen no inference call.
\<close>

theorem blank_diff_rejected_witness:
  "handleReview blank_engine (\<lambda>f. False) blank_request example_env world_retry_fails =
     (\<lparr> status = 400,
         body = ErrorBody
           (lit ''Missing or empty '' @ [39] @ lit ''diff'' @ [39] @ lit '' field'') \<rparr>,
      world_retry_fails)
   \<and> handleReview_index blank_engine blank_request example_env world_retry_fails =
     (\<lparr> status = 400,
         body = ErrorBody
           (lit ''Missing or empty '' @ [39] @ lit ''diff'' @ [39] @ lit '' field'') \<rparr>,
      world_retry_fails)
   \<and> ai_calls world_retry_fails = []"
proof -
  have a: "authorization blank_request = Some (lit ''Bearer s3cret'')"
    by (simp add: blank_request_def)
  have p: "JSON_parse blank_engine (body_text blank_request) = Inr blank_request_value"
    by (simp add: blank_engine_def blank_request_def)
  have o: "typeof (Some blank_request_value) = TObject"
    by (simp add: blank_request_value_def)
  have n: "blank_request_value \<noteq> JNull"
    by (simp add: blank_request_value_def)
  have d: "get_prop blank_request_value (lit ''diff'') = Some (JStr [32, 32, 32, 9, 10, 32])"
    by (simp add: blank_request_value_def)
  have b: "list_all isWhiteSpace [32, 32, 32, 9, 10, 32]"
    by (simp add: isWhiteSpace_def)
  note t = blank_diff_rejected [OF a bearer_nonempty bearer_prefix bearer_token p o n d b,
      of "\<lambda>f. False" world_retry_fails]
  with t show ?thesis by (simp add: world_retry_fails_def)
qed

text \<open>
  Claim C6. When the first reply of the inference binding cannot be extracted or
  validated, the handler makes exactly one more inference call, whose user message is
  the first one with the instruction appended, after an empty line, that the previous
  response was not valid JSON (the text \<open>Your previous response was not valid JSON. Try
  again and output ONLY valid JSON.\<close>), and extracts and validates its reply. When that fails too (or the second
  call itself fails), the answer is status 500 with the error of a failed parsing of
  the AI response, and no third call is made; when it succeeds, the answer is a review
  response with status 200, built from the second reply.
\<close>

theorem retry_exactly_once:
  assumes "authorization request = Some h" "h \<noteq> []" "startsWith h (lit ''Bearer '')"
    and "slice_from h 7 = AUTH_TOKEN env"
    and "JSON_parse eng (body_text request) = Inr reqBody"
    and "typeof (Some reqBody) = TObject" "reqBody \<noteq> JNull"
    and "get_prop reqBody (lit ''diff'') = Some (JStr d)" "trim d \<noteq> []"
    and "\<not> isTrivialDiff (fst (truncateDiff d))"
    and "ai_answers w (length (ai_calls w)) = Returns a1"
    and "getAiResponseText eng a1 = Inr t1"
    and "parseAndValidate eng t1 = Inl e1"
  shows
    "case handleReview eng noise request env w of
       (resp, w') \<Rightarrow>
         (let prompt =
                buildUserPrompt ((reviewRequest reqBody)\<lparr>req_diff := fst (truncateDiff d)\<rparr>)
                  (snd (truncateDiff d)) @ strictSuffix
          in ai_calls w' =
               ai_calls w
               @ [\<lparr> system_content = SYSTEM_PROMPT, user_content = prompt \<rparr>,
                  \<lparr> system_content = SYSTEM_PROMPT,
                    user_content =
                      prompt @ [10, 10]
                      @ lit ''Your previous response was not valid JSON. Try again and output ONLY valid JSON.'' \<rparr>]
             \<and> (case (case ai_answers w (Suc (length (ai_calls w))) of
                         Throws m \<Rightarrow> Inl (Thrown m)
                       | Returns a2 \<Rightarrow>
                           (case getAiResponseText eng a2 of
                              Inl e \<Rightarrow> Inl e
                            | Inr t2 \<Rightarrow> parseAndValidate eng t2)) of
                   Inl e2 \<Rightarrow>
                     resp =
                       \<lparr> status = 500,
                         body = ErrorBody
                           (lit ''AI response parsing failed: ''
                            @ error_message e2 (lit ''Failed to parse AI response'')) \<rparr>
                 | Inr v \<Rightarrow>
                     status resp = 200
                     \<and> (\<exists>r. body resp = ReviewBody r
                            \<and> r_summary r = v_summary v
                            \<and> r_findings r = filterNonsensicalFindings noise (v_findings v)
                            \<and> r_recommendation r = deriveRecommendation (r_findings r))))"
proof -
  have acc: "handleReview eng noise request env w
               = reviewDiff eng noise (reviewRequest reqBody) w"
    using assms(1-9) by (rule handleReview_accepted)
  have d: "req_diff (reviewRequest reqBody) = d"
    using assms(8) by (rule reviewRequest_diff)
  have n: "\<not> isTrivialDiff (fst (truncateDiff (req_diff (reviewRequest reqBody))))"
    using assms(10) d by simp
  note run = reviewDiff_retry [OF n assms(11) assms(12) assms(13), of noise]
  show ?thesis
  proof (cases "case ai_answers w (Suc (length (ai_calls w))) of
                  Throws m \<Rightarrow> Inl (Thrown m)
                | Returns a2 \<Rightarrow>
                    (case getAiResponseText eng a2 of
                       Inl e \<Rightarrow> Inl e
                     | Inr t2 \<Rightarrow> parseAndValidate eng t2)")
    case (Inl e2)
    then show ?thesis
      by (simp add: acc run d Let_def errorResponse_def jsonResponse_def retrySuffix_def)
  next
    case (Inr v)
    then show ?thesis
      by (simp add: acc run d Let_def reviewResponse_eq retrySuffix_def)
  qed
qed

text \<open>
  The theorem at two runs of the handler on the example request. In the first the
  binding answers with prose and then with the review wrapped in prose: two calls are
  made and the answer is the review. In the second it answers with prose twice: two
  calls are made and the answer is the error.
\<close>

theorem retry_exactly_once_witness:
  "ai_calls (snd (handleReview example_engine (\<lambda>f. False) example_request example_env
                    world_retry_succeeds))
     = [\<lparr> system_content = SYSTEM_PROMPT, user_content = example_prompt \<rparr>,
        \<lparr> system_content = SYSTEM_PROMPT, user_content =
            example_prompt @ [10, 10]
            @ lit ''Your previous response was not valid JSON. Try again and output ONLY valid JSON.'' \<rparr>]
   \<and> status (fst (handleReview example_engine (\<lambda>f. False) example_request example_env
                     world_retry_succeeds)) = 200
   \<and> (\<exists>r. body (fst (handleReview example_engine (\<lambda>f. False) example_request example_env
                        world_retry_succeeds)) = ReviewBody r
          \<and> r_summary r = lit ''Two issues''
          \<and> r_findings r = [finding_high, finding_nit])
   \<and> ai_calls (snd (handleReview example_engine (\<lambda>f. False) example_request example_env
                      world_retry_fails))
       = [\<lparr> system_content = SYSTEM_PROMPT, user_content = example_prompt \<rparr>,
          \<lparr> system_content = SYSTEM_PROMPT, user_content =
            example_prompt @ [10, 10]
            @ lit ''Your previous response was not valid JSON. Try again and output ONLY valid JSON.'' \<rparr>]
   \<and> fst (handleReview example_engine (\<lambda>f. False) example_request example_env world_retry_fails)
       = \<lparr> status = 500,
           body = ErrorBody
             (lit ''AI response parsing failed: '' @ lit ''No JSON object found in response'') \<rparr>"
proof -
  have n: "\<not> isTrivialDiff (fst (truncateDiff (lit ''+x = eval(input)'')))"
    by (simp add: example_truncate example_nontrivial)
  have p: "buildUserPrompt
             ((reviewRequest request_value)\<lparr>req_diff := fst (truncateDiff (lit ''+x = eval(input)''))\<rparr>)
             (snd (truncateDiff (lit ''+x = eval(input)''))) @ strictSuffix = example_prompt"
    by (simp add: example_truncate example_request_unchanged example_prompt_def)
  let ?good = "handleReview example_engine (\<lambda>f. False) example_request example_env
                 world_retry_succeeds"
  have g0: "ai_answers world_retry_succeeds (length (ai_calls world_retry_succeeds))
              = Returns (Some chatter)"
    by (simp add: world_retry_succeeds_def)
  have g1: "ai_answers world_retry_succeeds (Suc 0) = Returns (Some good_reply)"
    by (simp add: world_retry_succeeds_def)
  have gc: "ai_calls world_retry_succeeds = []"
    by (simp add: world_retry_succeeds_def)
  note good = retry_exactly_once [OF example_checks n g0 example_chatter_text
      example_chatter_fails, of "\<lambda>f. False"]
  obtain resp w' where run: "?good = (resp, w')" by (cases ?good)
  from good run have 1:
    "ai_calls w' =
       [\<lparr> system_content = SYSTEM_PROMPT, user_content = example_prompt \<rparr>,
        \<lparr> system_content = SYSTEM_PROMPT, user_content =
            example_prompt @ [10, 10]
            @ lit ''Your previous response was not valid JSON. Try again and output ONLY valid JSON.'' \<rparr>]"
    and 2: "status resp = 200"
    and 3: "\<exists>r. body resp = ReviewBody r \<and> r_summary r = lit ''Two issues''
              \<and> r_findings r = [finding_high, finding_nit]"
    by (auto simp: p g1 gc example_good_text example_good_validates filter_no_noise)
  let ?bad = "handleReview example_engine (\<lambda>f. False) example_request example_env
                world_retry_fails"
  have b0: "ai_answers world_retry_fails (length (ai_calls world_retry_fails))
              = Returns (Some chatter)"
    by (simp add: world_retry_fails_def)
  have b1: "ai_answers world_retry_fails (Suc 0) = Returns (Some chatter)"
    by (simp add: world_retry_fails_def)
  have bc: "ai_calls world_retry_fails = []"
    by (simp add: world_retry_fails_def)
  note bad = retry_exactly_once [OF example_checks n b0 example_chatter_text
      example_chatter_fails, of "\<lambda>f. False"]
  obtain resp2 w2 where run2: "?bad = (resp2, w2)" by (cases ?bad)
  from bad run2 have 4:
    "ai_calls w2 =
       [\<lparr> system_content = SYSTEM_PROMPT, user_content = example_prompt \<rparr>,
        \<lparr> system_content = SYSTEM_PROMPT, user_content =
            example_prompt @ [10, 10]
            @ lit ''Your previous response was not valid JSON. Try again and output ONLY valid JSON.'' \<rparr>]"
    and 5: "resp2 = \<lparr> status = 500,
           body = ErrorBody
             (lit ''AI response parsing failed: '' @ lit ''No JSON object found in response'') \<rparr>"
    by (simp_all add: p b1 bc example_chatter_text example_chatter_fails)
  from 1 2 3 4 5 run run2 show ?thesis by simp
qed

section \<open>Claims about trivial diffs\<close>

lemma slice_from_one: "slice_from l 1 = drop 1 l"
  by (cases l) (simp_all add: slice_from_def slice_index_def)

lemma trim_not_blank:
  assumes "trim s \<noteq> []"
  shows "\<not> allWhiteSpace (trim s)"
proof -
  let ?t = "dropWhile isWhiteSpace (rev (dropWhile isWhiteSpace s))"
  from assms have ne: "?t \<noteq> []" by (simp add: trim_def)
  then have "\<not> isWhiteSpace (hd ?t)" by (rule hd_dropWhile)
  moreover have "hd ?t \<in> set (trim s)"
    using ne by (simp add: trim_def)
  ultimately show ?thesis
    by (auto simp: allWhiteSpace_def list_all_iff)
qed

lemma substantive_iff: "substantive l \<longleftrightarrow> changed_line l \<and> \<not> blank_or_comment (content_of l)"
proof (cases "trim (drop 1 l) = []")
  case True
  then show ?thesis
    by (simp add: substantive_def changed_line_def blank_or_comment_def content_of_def
        slice_from_one)
next
  case False
  then have "\<not> allWhiteSpace (trim (drop 1 l))" by (rule trim_not_blank)
  with False show ?thesis
    by (auto simp: substantive_def changed_line_def blank_or_comment_def content_of_def
        slice_from_one Let_def)
qed

lemma hasSubstantiveChange_iff: "hasSubstantiveChange ls \<longleftrightarrow> (\<exists>l\<in>set ls. substantive l)"
  by (induction ls) auto

lemma hasSubstantiveChange_at:
  "substantive l \<Longrightarrow> hasSubstantiveChange (pre @ l # rest)"
  by (simp add: hasSubstantiveChange_iff)

lemma linesRead_eq:
  "linesRead ls =
     length (takeWhile (\<lambda>l. \<not> substantive l) ls) + (if hasSubstantiveChange ls then 1 else 0)"
  by (induction ls) auto

lemma linesRead_first:
  "\<forall>x\<in>set pre. \<not> substantive x \<Longrightarrow> substantive l \<Longrightarrow>
   linesRead (pre @ l # rest) = Suc (length pre)"
  by (induction pre) auto

lemma split_lines_nonempty: "split_lines s \<noteq> []"
  by (induction s) (auto split: list.splits)

lemma join_split_lines: "join [10] (split_lines s) = s"
proof (induction s)
  case Nil
  show ?case by simp
next
  case (Cons c cs)
  obtain l ls where sp: "split_lines cs = l # ls"
    using split_lines_nonempty [of cs] by (cases "split_lines cs") auto
  show ?case
  proof (cases "c = 10")
    case True
    with Cons sp show ?thesis by simp
  next
    case False
    with Cons sp show ?thesis by (cases ls) auto
  qed
qed

lemma split_lines_no_newline: "l \<in> set (split_lines s) \<Longrightarrow> 10 \<notin> set l"
  by (induction s arbitrary: l) (auto split: if_splits list.splits)

text \<open>
  Claim C5. \<^verbatim>\<open>isTrivialDiff\<close> is true exactly when every changed line of the
  diff (a line that starts with a plus or a minus sign, the lines that start with three
  of them excluded) has a content (the line without the sign, trimmed) that is empty
  or starts with one of the comment markers. A diff without a line that starts with a
  plus or a minus sign is trivial. A changed line whose content is neither makes the
  loop report a substantive change wherever it stands, and the loop stops there: when
  no line before it is such a line, the loop reads that line and none after it. The
  lines are the pieces of the diff between line feeds. A file header line is told by
  its three signs alone, as in the code: an added line whose own text starts with two
  plus signs counts as one.
\<close>

theorem isTrivialDiff_spec:
  "(isTrivialDiff diff \<longleftrightarrow>
      (\<forall>l\<in>set (split_lines diff). changed_line l \<longrightarrow> blank_or_comment (content_of l)))
   \<and> ((\<forall>l\<in>set (split_lines diff). \<not> startsWith l (lit ''+'') \<and> \<not> startsWith l (lit ''-''))
        \<longrightarrow> isTrivialDiff diff)
   \<and> (changed_line l \<and> \<not> blank_or_comment (content_of l)
        \<longrightarrow> hasSubstantiveChange (pre @ l # rest))
   \<and> ((\<forall>x\<in>set pre. changed_line x \<longrightarrow> blank_or_comment (content_of x))
        \<and> changed_line l \<and> \<not> blank_or_comment (content_of l)
        \<longrightarrow> linesRead (pre @ l # rest) = Suc (length pre))
   \<and> join [10] (split_lines diff) = diff
   \<and> (\<forall>l\<in>set (split_lines diff). 10 \<notin> set l)"
proof (intro conjI impI ballI)
  show "isTrivialDiff diff \<longleftrightarrow>
      (\<forall>l\<in>set (split_lines diff). changed_line l \<longrightarrow> blank_or_comment (content_of l))"
    by (simp add: isTrivialDiff_def hasSubstantiveChange_iff substantive_iff)
  show "isTrivialDiff diff"
    if "\<forall>l\<in>set (split_lines diff). \<not> startsWith l (lit ''+'') \<and> \<not> startsWith l (lit ''-'')"
    using that
    by (simp add: isTrivialDiff_def hasSubstantiveChange_iff substantive_iff changed_line_def)
  show "hasSubstantiveChange (pre @ l # rest)"
    if "changed_line l \<and> \<not> blank_or_comment (content_of l)"
    using that by (intro hasSubstantiveChange_at) (simp add: substantive_iff)
  show "linesRead (pre @ l # rest) = Suc (length pre)"
    if "(\<forall>x\<in>set pre. changed_line x \<longrightarrow> blank_or_comment (content_of x))
        \<and> changed_line l \<and> \<not> blank_or_comment (content_of l)"
    using that by (intro linesRead_first) (simp_all add: substantive_iff)
  show "join [10] (split_lines diff) = diff"
    by (rule join_split_lines)
  show "10 \<notin> set x" if "x \<in> set (split_lines diff)" for x
    using that by (rule split_lines_no_newline)
qed

lemma split_comment_only:
  "split_lines diff_comment_only =
     [lit ''--- a/f.ts'', lit ''+++ b/f.ts'', lit ''+ // note'', lit ''-   '', lit '' context'']"
  by (simp add: diff_comment_only_def lit_def)

lemma split_with_statement:
  "split_lines diff_with_statement = [lit ''+ // note'', lit ''+ x = 1'', lit ''+ y = 2'']"
  by (simp add: diff_with_statement_def lit_def)

lemma split_context_only:
  "split_lines diff_context_only = [lit '' unchanged'', lit ''@@ -1 +1 @@'']"
  by (simp add: diff_context_only_def lit_def)

lemma changed_examples:
  "\<not> changed_line (lit ''--- a/f.ts'')" "\<not> changed_line (lit ''+++ b/f.ts'')"
  "changed_line (lit ''+ // note'')" "changed_line (lit ''-   '')"
  "\<not> changed_line (lit '' context'')" "changed_line (lit ''+ x = 1'')"
  by (simp_all add: changed_line_def startsWith_def lit_def)

lemma content_examples:
  "content_of (lit ''+ // note'') = lit ''// note''" "content_of (lit ''-   '') = []"
  "content_of (lit ''+ x = 1'') = lit ''x = 1''"
  by (simp_all add: content_of_def trim_def isWhiteSpace_def lit_def)

lemma comment_examples:
  "blank_or_comment (lit ''// note'')" "blank_or_comment []"
  "\<not> blank_or_comment (lit ''x = 1'')"
  by (simp_all add: blank_or_comment_def startsWith_def lit_def)

text \<open>The theorem at the three diffs.\<close>

theorem isTrivialDiff_spec_witness:
  "isTrivialDiff diff_comment_only
   \<and> \<not> isTrivialDiff diff_with_statement
   \<and> isTrivialDiff diff_context_only
   \<and> hasSubstantiveChange (split_lines diff_with_statement)
   \<and> linesRead (split_lines diff_with_statement) = 2
   \<and> join [10] (split_lines diff_with_statement) = diff_with_statement"
proof -
  note t = isTrivialDiff_spec
  have 1: "isTrivialDiff diff_comment_only"
    using t [of diff_comment_only]
    by (simp add: split_comment_only changed_examples content_examples comment_examples)
  have s: "changed_line (lit ''+ x = 1'') \<and> \<not> blank_or_comment (content_of (lit ''+ x = 1''))"
    by (simp add: changed_examples content_examples comment_examples)
  have 2: "\<not> isTrivialDiff diff_with_statement"
    using t [of diff_with_statement]
    by (simp add: split_with_statement changed_examples content_examples comment_examples)
  have c: "\<forall>l\<in>set (split_lines diff_context_only).
             \<not> startsWith l (lit ''+'') \<and> \<not> startsWith l (lit ''-'')"
    by (simp add: split_context_only startsWith_def lit_def)
  have "(\<forall>l\<in>set (split_lines diff_context_only).
             \<not> startsWith l (lit ''+'') \<and> \<not> startsWith l (lit ''-''))
        \<longrightarrow> isTrivialDiff diff_context_only"
    by (rule t [of diff_context_only, THEN conjunct2, THEN conjunct1])
  with c have 3: "isTrivialDiff diff_context_only" by (rule rev_mp)
  have p: "\<forall>x\<in>set [lit ''+ // note'']. changed_line x \<longrightarrow> blank_or_comment (content_of x)"
    by (simp add: content_examples comment_examples)
  note u = t [of diff_with_statement "lit ''+ x = 1''" "[lit ''+ // note'']" "[lit ''+ y = 2'']"]
  from u [THEN conjunct2, THEN conjunct2, THEN conjunct1] s
  have "hasSubstantiveChange ([lit ''+ // note''] @ lit ''+ x = 1'' # [lit ''+ y = 2''])"
    by (rule mp)
  then have 4: "hasSubstantiveChange (split_lines diff_with_statement)"
    by (simp only: split_with_statement append_Cons append_Nil)
  from p s have "(\<forall>x\<in>set [lit ''+ // note'']. changed_line x \<longrightarrow> blank_or_comment (content_of x))
        \<and> changed_line (lit ''+ x = 1'') \<and> \<not> blank_or_comment (content_of (lit ''+ x = 1''))"
    by (rule conjI)
  with u [THEN conjunct2, THEN conjunct2, THEN conjunct2, THEN conjunct1]
  have "linesRead ([lit ''+ // note''] @ lit ''+ x = 1'' # [lit ''+ y = 2''])
          = Suc (length [lit ''+ // note''])"
    by (rule mp)
  then have 5: "linesRead (split_lines diff_with_statement) = 2"
    by (simp only: split_with_statement append_Cons append_Nil) simp
  have 6: "join [10] (split_lines diff_with_statement) = diff_with_statement"
    by (rule u [THEN conjunct2, THEN conjunct2, THEN conjunct2, THEN conjunct2, THEN conjunct1])
  from 1 2 3 4 5 6 show ?thesis by (intro conjI)
qed

section \<open>Claims about the report and the inline comments\<close>

lemma buildInlineComments_loop_eq:
  "buildInlineComments_loop fs comments =
     comments @ map (\<lambda>f. \<lparr> c_path = the (file f), c_line = the (line f), c_body = commentBody f \<rparr>)
                  (filter (\<lambda>f. truthy_string (file f) \<and> truthy_line (line f)) fs)"
  by (induction fs arbitrary: comments) auto

lemma truthy_string_iff: "truthy_string s \<longleftrightarrow> (\<exists>p. s = Some p \<and> p \<noteq> [])"
  by (cases s) auto

lemma truthy_line_iff: "truthy_line l \<longleftrightarrow> (\<exists>n. l = Some n \<and> n \<noteq> Finite 0 \<and> n \<noteq> NaN)"
proof (cases l)
  case None
  then show ?thesis by simp
next
  case (Some n)
  then show ?thesis by (cases n) auto
qed

lemma join_member: "l \<in> set ls \<Longrightarrow> sublist l (join sep ls)"
proof (induction sep ls rule: join.induct)
  case (1 sep)
  then show ?case by simp
next
  case (2 sep x)
  then show ?case by simp
next
  case (3 sep x y ys)
  show ?case
  proof (cases "l = x")
    case True
    then have "join sep (x # y # ys) = [] @ l @ (sep @ join sep (y # ys))" by simp
    then show ?thesis unfolding sublist_def by blast
  next
    case False
    with 3 have "sublist l (join sep (y # ys))" by simp
    then obtain ps ss where "join sep (y # ys) = ps @ l @ ss"
      by (auto simp: sublist_def)
    then have "join sep (x # y # ys) = (x @ sep @ ps) @ l @ ss" by simp
    then show ?thesis unfolding sublist_def by blast
  qed
qed

lemma set_bucket_lines:
  "set (bucket_lines header bullets) = (if bullets = [] then {} else insert header (insert [] (set bullets)))"
  by (auto simp: bucket_lines_def)

lemma bucket_cover:
  "f \<in> set fs \<Longrightarrow> f \<in> set (bucket_high fs) \<or> f \<in> set (bucket_medium fs) \<or> f \<in> set (bucket_lowAndNit fs)"
  by (cases "severity f") (auto simp: bucket_high_def bucket_medium_def bucket_lowAndNit_def)

lemma bullet_in_lines_inline:
  assumes "f \<in> set fs"
  shows "formatFindingBullet_inline pr f \<in> set (renderReviewLines_inline pr sm fs ns rc sh)"
proof -
  from assms bucket_cover [of f fs] show ?thesis
    by (auto simp: renderReviewLines_inline_def set_bucket_lines)
qed




lemma not_member_by_hd: "hd h \<noteq> c \<Longrightarrow> \<forall>x\<in>set xs. hd x = c \<Longrightarrow> h \<notin> set xs"
  by auto























lemma recEmoji_values:
  "recEmoji Approve = sym_check" "recEmoji ApproveWithChanges = sym_warning"
  "recEmoji RequestChanges = sym_cross"
  by (simp_all add: recEmoji_def)

lemma symbols_distinct:
  "sym_check \<noteq> sym_warning" "sym_check \<noteq> sym_cross" "sym_warning \<noteq> sym_cross"
  by (simp_all add: sym_check_def sym_warning_def sym_cross_def)

lemma recEmoji_inj: "recEmoji a = recEmoji b \<longleftrightarrow> a = b"
  using symbols_distinct symbols_distinct [symmetric]
  by (cases a; cases b) (simp_all add: recEmoji_values)





lemma validated_anchor:
  assumes "validateFinding e = Some f"
  shows "((\<exists>p. file f = Some p \<and> p \<noteq> []) \<and> (\<exists>n. line f = Some n \<and> n \<noteq> Finite 0 \<and> n \<noteq> NaN))
         \<longleftrightarrow> (file f \<noteq> None \<and> line f \<noteq> None \<and> line f \<noteq> Some (Finite 0))"
proof -
  let ?p = "get_prop e (lit ''file'')" and ?l = "get_prop e (lit ''line'')"
  have fl: "file f = (if typeof ?p = TString \<and> the_string ?p \<noteq> [] then Some (the_string ?p)
                      else None)"
    using assms by (auto simp: validateFinding_def split: if_splits)
  have ln: "line f = (if typeof ?l = TNumber \<and> Number_isInteger (the_number ?l)
                      then Some (the_number ?l) else None)"
    using assms by (auto simp: validateFinding_def split: if_splits)
  have "\<not> Number_isInteger NaN" by simp
  then have "line f \<noteq> Some NaN" using ln by (auto split: if_splits)
  moreover have "file f \<noteq> Some []" using fl by (auto split: if_splits)
  ultimately show ?thesis by auto
qed

text \<open>
  Claim C8, as the code has it. \<^verbatim>\<open>buildInlineComments\<close> gives one inline comment,
  with the file as its path and the line as its line, for every finding whose file is
  a non-empty string and whose line is a number other than zero (and NaN), in the order
  of the findings, and none for the other findings. Among the findings that survive
  validation these are the findings that carry a file and a line other than zero. Every
  finding, with or without an anchor, has its bullet among the lines of the report and
  so in its text.
\<close>

theorem buildInlineComments_anchored:
  "buildInlineComments fs =
     map (\<lambda>f. \<lparr> c_path = the (file f), c_line = the (line f), c_body = commentBody f \<rparr>)
       (filter (\<lambda>f. (\<exists>p. file f = Some p \<and> p \<noteq> [])
                    \<and> (\<exists>n. line f = Some n \<and> n \<noteq> Finite 0 \<and> n \<noteq> NaN)) fs)
   \<and> (validateFinding e = Some f \<longrightarrow>
        (((\<exists>p. file f = Some p \<and> p \<noteq> []) \<and> (\<exists>n. line f = Some n \<and> n \<noteq> Finite 0 \<and> n \<noteq> NaN))
         \<longleftrightarrow> (file f \<noteq> None \<and> line f \<noteq> None \<and> line f \<noteq> Some (Finite 0))))
   \<and> (\<forall>f\<in>set fs.
        formatFindingBullet_inline pr f \<in> set (renderReviewLines_inline pr sm fs ns rc sh)
        \<and> sublist (formatFindingBullet_inline pr f)
             (renderReviewMarkdown_inline pr sm fs ns rc sh))"
proof (intro conjI impI ballI)
  show "buildInlineComments fs =
     map (\<lambda>f. \<lparr> c_path = the (file f), c_line = the (line f), c_body = commentBody f \<rparr>)
       (filter (\<lambda>f. (\<exists>p. file f = Some p \<and> p \<noteq> [])
                    \<and> (\<exists>n. line f = Some n \<and> n \<noteq> Finite 0 \<and> n \<noteq> NaN)) fs)"
    by (simp add: buildInlineComments_def buildInlineComments_loop_eq truthy_string_iff
        truthy_line_iff)
  show "((\<exists>p. file f = Some p \<and> p \<noteq> []) \<and> (\<exists>n. line f = Some n \<and> n \<noteq> Finite 0 \<and> n \<noteq> NaN))
         \<longleftrightarrow> (file f \<noteq> None \<and> line f \<noteq> None \<and> line f \<noteq> Some (Finite 0))"
    if "validateFinding e = Some f"
    using that by (rule validated_anchor)
  show "formatFindingBullet_inline pr x \<in> set (renderReviewLines_inline pr sm fs ns rc sh)"
    if "x \<in> set fs" for x
    using that by (rule bullet_in_lines_inline)
  show "sublist (formatFindingBullet_inline pr x) (renderReviewMarkdown_inline pr sm fs ns rc sh)"
    if "x \<in> set fs" for x
    unfolding renderReviewMarkdown_inline_def
    using that by (intro join_member bullet_in_lines_inline)
qed

lemma validate_line_zero: "validateFinding (element_line (Finite 0)) = Some finding_line_zero"
  using validate_element_line_int [of 0] by (simp add: finding_line_zero_def)

lemma validate_anchored: "validateFinding (element_line (Finite 12)) = Some finding_anchored"
  using validate_element_line_int [of 12] by (simp add: finding_anchored_def)

text \<open>
  The theorem at four findings: one with a file and no line, one with a file and the
  line 12, one without a file, and one with a file and the line 0.
\<close>

theorem buildInlineComments_anchored_witness:
  "buildInlineComments [finding_low, finding_anchored, finding_high, finding_line_zero] =
     [\<lparr> c_path = lit ''a.ts'', c_line = Finite 12, c_body = commentBody finding_anchored \<rparr>]
   \<and> validateFinding (element_line (Finite 12)) = Some finding_anchored
   \<and> file finding_anchored \<noteq> None \<and> line finding_anchored \<noteq> None
   \<and> line finding_anchored \<noteq> Some (Finite 0)
   \<and> formatFindingBullet_inline print_line finding_low
       \<in> set (renderReviewLines_inline print_line (lit ''Four findings'')
                [finding_low, finding_anchored, finding_high, finding_line_zero] [] RequestChanges
                None)
   \<and> sublist (formatFindingBullet_inline print_line finding_low)
       (renderReviewMarkdown_inline print_line (lit ''Four findings'')
          [finding_low, finding_anchored, finding_high, finding_line_zero] [] RequestChanges None)"
proof -
  let ?fs = "[finding_low, finding_anchored, finding_high, finding_line_zero]"
  note t = buildInlineComments_anchored [of ?fs "element_line (Finite 12)" finding_anchored
      print_line "lit ''Four findings''" "[]" RequestChanges None]
  have 1: "buildInlineComments ?fs =
     [\<lparr> c_path = lit ''a.ts'', c_line = Finite 12, c_body = commentBody finding_anchored \<rparr>]"
    using t [THEN conjunct1]
    by (simp add: finding_low_def finding_anchored_def finding_high_def finding_line_zero_def
        lit_def)
  have 2: "file finding_anchored \<noteq> None \<and> line finding_anchored \<noteq> None
           \<and> line finding_anchored \<noteq> Some (Finite 0)"
    using t [THEN conjunct2, THEN conjunct1] validate_anchored
    by (simp add: finding_anchored_def)
  have m: "finding_low \<in> set ?fs" by simp
  from t [THEN conjunct2, THEN conjunct2] m
  have 3: "formatFindingBullet_inline print_line finding_low
       \<in> set (renderReviewLines_inline print_line (lit ''Four findings'') ?fs [] RequestChanges
                None)
   \<and> sublist (formatFindingBullet_inline print_line finding_low)
       (renderReviewMarkdown_inline print_line (lit ''Four findings'') ?fs [] RequestChanges None)"
    by (rule bspec)
  from 1 2 3 validate_anchored show ?thesis by (intro conjI) simp_all
qed

text \<open>
  The claim as it was stated fails: the finding validated from the element with the
  file \<^verbatim>\<open>a.ts\<close> and the line 0 carries both a file and a line, and no inline
  comment is built for it.
\<close>

theorem buildInlineComments_line_zero_counterexample:
  "validateFinding (element_line (Finite 0)) = Some finding_line_zero
   \<and> file finding_line_zero = Some (lit ''a.ts'')
   \<and> line finding_line_zero = Some (Finite 0)
   \<and> buildInlineComments [finding_line_zero] = []"
  by (simp add: validate_line_zero buildInlineComments_def)
     (simp add: finding_line_zero_def)




end
